theory Spec2Isabelle
  imports Main
begin

section \<open>Strings\<close>

text \<open>
  A string of the program is modelled as a \<^typ>\<open>string\<close>: the list of the bytes of its
  UTF-8 text. The operations below are those of the JavaScript string library on ASCII:
  white space is the six ASCII white-space characters, letter case is ASCII letter case, and
  a byte above 127 is an ordinary character that is neither white space, nor a word
  character, nor cased. The white space and the cased letters of Unicode beyond ASCII are
  outside the model.
\<close>

definition is_space :: "char \<Rightarrow> bool" where
  \<comment> \<open>the class \<open>\s\<close>, and what \<open>trim\<close> removes\<close>
  "is_space c \<longleftrightarrow>
     c = CHR '' '' \<or> c = CHR 0x09 \<or> c = CHR 0x0A \<or> c = CHR 0x0B \<or> c = CHR 0x0C \<or> c = CHR 0x0D"

definition is_upper :: "char \<Rightarrow> bool" where
  "is_upper c \<longleftrightarrow> (65::nat) \<le> of_char c \<and> of_char c \<le> (90::nat)"

definition is_lower :: "char \<Rightarrow> bool" where
  "is_lower c \<longleftrightarrow> (97::nat) \<le> of_char c \<and> of_char c \<le> (122::nat)"

definition is_digit :: "char \<Rightarrow> bool" where
  "is_digit c \<longleftrightarrow> (48::nat) \<le> of_char c \<and> of_char c \<le> (57::nat)"

definition is_word :: "char \<Rightarrow> bool" where
  \<comment> \<open>the class \<open>\w\<close>\<close>
  "is_word c \<longleftrightarrow> is_lower c \<or> is_upper c \<or> is_digit c \<or> c = CHR ''_''"

definition is_dot :: "char \<Rightarrow> bool" where
  \<comment> \<open>the class \<open>.\<close>: any character but a line terminator\<close>
  "is_dot c \<longleftrightarrow> c \<noteq> CHR 0x0A \<and> c \<noteq> CHR 0x0D"

definition lower_char :: "char \<Rightarrow> char" where
  "lower_char c = (if is_upper c then char_of (of_char c + (32::nat)) else c)"

definition toLowerCase :: "string \<Rightarrow> string" where
  "toLowerCase s = map lower_char s"

definition trim :: "string \<Rightarrow> string" where
  "trim s = rev (dropWhile is_space (rev (dropWhile is_space s)))"

fun startsWith :: "string \<Rightarrow> string \<Rightarrow> bool" where
  "startsWith s [] = True"
| "startsWith [] (p # ps) = False"
| "startsWith (c # cs) (p # ps) = (c = p \<and> startsWith cs ps)"

fun includes_str :: "string \<Rightarrow> string \<Rightarrow> bool" where
  \<comment> \<open>\<open>s.includes(p)\<close>\<close>
  "includes_str [] p = (p = [])"
| "includes_str (c # cs) p = (startsWith (c # cs) p \<or> includes_str cs p)"

fun split_acc :: "char \<Rightarrow> string \<Rightarrow> string \<Rightarrow> string list" where
  "split_acc d cur [] = [rev cur]"
| "split_acc d cur (c # cs) =
     (if c = d then rev cur # split_acc d [] cs else split_acc d (c # cur) cs)"

definition split_on :: "char \<Rightarrow> string \<Rightarrow> string list" where
  \<comment> \<open>\<open>s.split(d)\<close> for a separator of one character; the empty string gives \<open>[""]\<close>\<close>
  "split_on d s = split_acc d [] s"

fun join :: "string \<Rightarrow> string list \<Rightarrow> string" where
  \<comment> \<open>\<open>xs.join(sep)\<close> on an array of strings\<close>
  "join sep [] = []"
| "join sep [x] = x"
| "join sep (x # y # ys) = x @ sep @ join sep (y # ys)"

section \<open>Regular expressions\<close>

text \<open>
  The patterns of the interpreter are values of \<open>rx\<close>, and \<open>rx_match\<close> is a
  backtracking matcher with the priorities of the JavaScript one: the left alternative
  first, a greedy quantifier longest first, a lazy one shortest first. The quantifiers
  \<open>*\<close> and \<open>+\<close> occur in the source on single character classes only. The matcher is
  written with a continuation \<open>k\<close> for what follows the pattern; it is given the position
  reached, the input left and the captures made.
\<close>

datatype rx =
    Lit string                     \<comment> \<open>a literal text\<close>
  | Cls "char \<Rightarrow> bool"             \<comment> \<open>one character of a class\<close>
  | Star "char \<Rightarrow> bool"            \<comment> \<open>\<open>c*\<close>, greedy\<close>
  | LazyStar "char \<Rightarrow> bool"        \<comment> \<open>\<open>c*?\<close>\<close>
  | Seq rx rx
  | Alt rx rx
  | Opt rx                         \<comment> \<open>\<open>(?:r)?\<close>\<close>
  | Grp nat rx                     \<comment> \<open>capture group number n\<close>
  | Bol                            \<comment> \<open>\<open>^\<close>\<close>
  | Eol                            \<comment> \<open>\<open>$\<close>\<close>

type_synonym caps = "(nat \<times> string) list"

fun lit_rest :: "bool \<Rightarrow> string \<Rightarrow> string \<Rightarrow> string option" where
  \<comment> \<open>the input after the literal; with the flag \<open>i\<close> letters are compared without case\<close>
  "lit_rest ic [] inp = Some inp"
| "lit_rest ic (p # ps) [] = None"
| "lit_rest ic (p # ps) (c # cs) =
     (if (if ic then lower_char c = lower_char p else c = p) then lit_rest ic ps cs else None)"

fun greedy :: "(char \<Rightarrow> bool) \<Rightarrow> (nat \<Rightarrow> string \<Rightarrow> caps \<Rightarrow> 'a option)
    \<Rightarrow> nat \<Rightarrow> string \<Rightarrow> caps \<Rightarrow> 'a option" where
  "greedy f k p [] cp = k p [] cp"
| "greedy f k p (c # cs) cp =
     (if f c then (case greedy f k (Suc p) cs cp of Some r \<Rightarrow> Some r | None \<Rightarrow> k p (c # cs) cp)
      else k p (c # cs) cp)"

fun lazy :: "(char \<Rightarrow> bool) \<Rightarrow> (nat \<Rightarrow> string \<Rightarrow> caps \<Rightarrow> 'a option)
    \<Rightarrow> nat \<Rightarrow> string \<Rightarrow> caps \<Rightarrow> 'a option" where
  "lazy f k p [] cp = k p [] cp"
| "lazy f k p (c # cs) cp =
     (case k p (c # cs) cp of Some r \<Rightarrow> Some r
      | None \<Rightarrow> if f c then lazy f k (Suc p) cs cp else None)"

primrec rx_match :: "rx \<Rightarrow> bool \<Rightarrow> (nat \<Rightarrow> string \<Rightarrow> caps \<Rightarrow> 'a option)
    \<Rightarrow> nat \<Rightarrow> string \<Rightarrow> caps \<Rightarrow> 'a option" where
  "rx_match (Lit s) ic k p inp cp =
     (case lit_rest ic s inp of None \<Rightarrow> None | Some rest \<Rightarrow> k (p + length s) rest cp)"
| "rx_match (Cls f) ic k p inp cp =
     (case inp of [] \<Rightarrow> None | c # cs \<Rightarrow> if f c then k (Suc p) cs cp else None)"
| "rx_match (Star f) ic k p inp cp = greedy f k p inp cp"
| "rx_match (LazyStar f) ic k p inp cp = lazy f k p inp cp"
| "rx_match (Seq a b) ic k p inp cp = rx_match a ic (rx_match b ic k) p inp cp"
| "rx_match (Alt a b) ic k p inp cp =
     (case rx_match a ic k p inp cp of Some r \<Rightarrow> Some r | None \<Rightarrow> rx_match b ic k p inp cp)"
| "rx_match (Opt a) ic k p inp cp =
     (case rx_match a ic k p inp cp of Some r \<Rightarrow> Some r | None \<Rightarrow> k p inp cp)"
| "rx_match (Grp n a) ic k p inp cp =
     rx_match a ic (\<lambda>p' inp' cp'. k p' inp' ((n, take (p' - p) inp) # cp')) p inp cp"
| "rx_match Bol ic k p inp cp = (if p = 0 then k p inp cp else None)"
| "rx_match Eol ic k p inp cp = (if inp = [] then k p inp cp else None)"

record regexp =
  body :: rx
  ignoreCase :: bool

record match_result =
  index :: nat          \<comment> \<open>where the match starts\<close>
  matched :: string     \<comment> \<open>element 0 of the match array\<close>
  groups :: caps        \<comment> \<open>the capture groups\<close>

definition match_here :: "regexp \<Rightarrow> nat \<Rightarrow> string \<Rightarrow> match_result option" where
  "match_here re p inp =
     rx_match (body re) (ignoreCase re)
       (\<lambda>p' inp' cp. Some \<lparr>index = p, matched = take (p' - p) inp, groups = cp\<rparr>) p inp []"

fun search :: "regexp \<Rightarrow> nat \<Rightarrow> string \<Rightarrow> match_result option" where
  \<comment> \<open>the leftmost match: every start position is tried in turn, the end of input included\<close>
  "search re p [] = match_here re p []"
| "search re p (c # cs) =
     (case match_here re p (c # cs) of Some r \<Rightarrow> Some r | None \<Rightarrow> search re (Suc p) cs)"

definition match :: "string \<Rightarrow> regexp \<Rightarrow> match_result option" where
  \<comment> \<open>\<open>s.match(re)\<close> for a pattern without the flag \<open>g\<close>\<close>
  "match s re = search re 0 s"

definition test :: "regexp \<Rightarrow> string \<Rightarrow> bool" where
  \<comment> \<open>\<open>re.test(s)\<close>\<close>
  "test re s = (match s re \<noteq> None)"

definition group :: "match_result \<Rightarrow> nat \<Rightarrow> string option" where
  \<comment> \<open>\<open>m[n]\<close> for \<open>n \<ge> 1\<close>; None is \<open>undefined\<close>\<close>
  "group m n = map_of (groups m) n"

definition seqs :: "rx list \<Rightarrow> rx" where
  "seqs rs = foldr Seq rs (Lit [])"

definition alts :: "string list \<Rightarrow> rx" where
  \<comment> \<open>\<open>a|b|c\<close> of literal texts\<close>
  "alts ws = foldr (\<lambda>w r. Alt (Lit w) r) (butlast ws) (Lit (last ws))"

definition Plus :: "(char \<Rightarrow> bool) \<Rightarrow> rx" where
  "Plus f = Seq (Cls f) (Star f)"

definition LazyPlus :: "(char \<Rightarrow> bool) \<Rightarrow> rx" where
  "LazyPlus f = Seq (Cls f) (LazyStar f)"

definition icase :: "rx list \<Rightarrow> regexp" where
  \<comment> \<open>a pattern with the flag \<open>i\<close>\<close>
  "icase rs = \<lparr>body = seqs rs, ignoreCase = True\<rparr>"

section \<open>The command interpreter\<close>

record column =
  col_name :: string
  col_type :: string

text \<open>
  The \<open>details\<close> object of an action. A field that the object does not have is None;
  \<open>databaseName\<close> can also be present with the value \<open>null\<close>, which is \<open>Some None\<close>.
\<close>

record details =
  d_response :: "string option"
  d_tableName :: "string option"
  d_values :: "string list option"
  d_set :: "string option"
  d_where :: "string option"
  d_name :: "string option"
  d_columns :: "column list option"
  d_databaseName :: "string option option"
  d_message :: "string option"

definition no_details :: details where
  \<comment> \<open>the object \<open>{}\<close>\<close>
  "no_details = \<lparr>d_response = None, d_tableName = None, d_values = None, d_set = None,
     d_where = None, d_name = None, d_columns = None, d_databaseName = None, d_message = None\<rparr>"

record ActionDescriptor =
  action :: string
  details :: details

definition sp_punct :: "char \<Rightarrow> bool" where
  \<comment> \<open>the class \<open>[\s!.,?]\<close>\<close>
  "sp_punct c \<longleftrightarrow> is_space c \<or> c = CHR ''!'' \<or> c = CHR ''.'' \<or> c = CHR '','' \<or> c = CHR ''?''"

definition sp_qe :: "char \<Rightarrow> bool" where
  \<comment> \<open>the class \<open>[\s?!]\<close>\<close>
  "sp_qe c \<longleftrightarrow> is_space c \<or> c = CHR ''?'' \<or> c = CHR ''!''"

definition bullet :: string where
  \<comment> \<open>the three characters before each item of the two help texts, as the source file has them\<close>
  "bullet = [CHR 0xC3, CHR 0xA2, CHR 0xE2, CHR 0x82, CHR 0xAC, CHR 0xC2, CHR 0xA2]"

definition nl :: string where
  "nl = [CHR 0x0A]"

definition apos :: string where
  \<comment> \<open>an apostrophe\<close>
  "apos = [CHR 0x27]"

definition greetingPatterns :: "(regexp \<times> string) list" where
  "greetingPatterns = [
    (icase [Bol, Grp 1 (alts [''hi'', ''hello'', ''hey'', ''hola'', ''howdy'']), Star sp_punct, Eol],
     ''Hi there! What can I help you with today? I can help you create and manage database tables.''),
    (icase [Bol, Grp 1 (alts [''hi'', ''hello'', ''hey'', ''hola'', ''howdy'']), Plus is_space,
            Grp 2 (alts [''there'', ''everyone'', ''friend'']), Star sp_punct, Eol],
     ''Hello! How can I assist you today? I can help you with database operations.''),
    (icase [Lit ''how'', Plus is_space, Grp 1 (alts [''are'', ''r'']), Plus is_space,
            Grp 2 (alts [''you'', ''u'']), Star sp_qe, Eol],
     ''I'' @ apos @ ''m doing great, thank you for asking! I'' @ apos @
     ''m here to help you manage your databases. How can I assist you today?''),
    (icase [Bol, Grp 1 (Alt (seqs [Lit ''what'', Opt (Lit apos), Lit ''s'', Plus is_space, Lit ''up''])
                        (Alt (Lit ''sup'') (Lit ''wassup''))), Star sp_qe, Eol],
     ''Not much! Just here to help you with your database needs. What would you like to do?''),
    (icase [Bol, Grp 1 (Alt (seqs [Lit ''good'', Plus is_space, Lit ''morning'']) (Lit ''morning'')),
            Star sp_punct, Eol],
     ''Good morning! Ready to help you with your database tasks. What can I do for you?''),
    (icase [Bol, Grp 1 (Alt (seqs [Lit ''good'', Plus is_space, Lit ''afternoon'']) (Lit ''afternoon'')),
            Star sp_punct, Eol],
     ''Good afternoon! How can I help you with your database today?''),
    (icase [Bol, Grp 1 (Alt (seqs [Lit ''good'', Plus is_space, Lit ''evening'']) (Lit ''evening'')),
            Star sp_punct, Eol],
     ''Good evening! What database operations would you like to perform?''),
    (icase [Bol, Grp 1 (Alt (seqs [Lit ''good'', Plus is_space, Lit ''night'']) (Lit ''night'')),
            Star sp_punct, Eol],
     ''Good night! Before you go, is there anything you'' @ apos @ ''d like me to help you with?''),
    (icase [Bol, Grp 1 (Alt (seqs [Lit ''thank'', Star is_space, Lit ''you''])
                        (Alt (Lit ''thanks'') (Alt (Lit ''thx'') (Lit ''ty'')))), Star sp_punct, Eol],
     ''You'' @ apos @ ''re welcome! Let me know if you need anything else with your database.''),
    (icase [Bol, Grp 1 (Alt (Lit ''bye'') (Alt (Lit ''goodbye'')
                        (Alt (seqs [Lit ''see'', Plus is_space, Lit ''you'']) (Lit ''cya'')))),
            Star sp_punct, Eol],
     ''Goodbye! Feel free to come back anytime you need help with your database.''),
    (icase [Lit ''what'', Plus is_space, Lit ''can'', Plus is_space, Lit ''you'', Plus is_space,
            Lit ''do'', Star sp_qe, Eol],
     ''I can help you with database operations! You can:'' @ nl @
     bullet @ '' Create tables: '' @ apos @ ''create a table student with id, name, email'' @ apos @ nl @
     bullet @ '' Insert data: '' @ apos @ ''insert into student values 101, John, john@email.com'' @ apos @ nl @
     bullet @ '' View tables: '' @ apos @ ''show student table'' @ apos @ '' or '' @ apos @ ''show all tables'' @ apos @ nl @
     bullet @ '' Delete tables: '' @ apos @ ''delete table student'' @ apos @ nl @
     bullet @ '' And more!''),
    (icase [Bol, Lit ''help'', Star sp_punct, Eol],
     ''I'' @ apos @ ''m here to help! Here are some things you can ask me:'' @ nl @
     bullet @ '' '' @ apos @ ''create a table student with id, name, email'' @ apos @ nl @
     bullet @ '' '' @ apos @ ''insert into student values 101, John, john@email.com'' @ apos @ nl @
     bullet @ '' '' @ apos @ ''show student table'' @ apos @ nl @
     bullet @ '' '' @ apos @ ''show all tables'' @ apos @ nl @
     bullet @ '' '' @ apos @ ''delete table student'' @ apos @ nl @
     ''Just type your command in natural language!''),
    (icase [Lit ''who'', Plus is_space, Grp 1 (alts [''are'', ''r'']), Plus is_space,
            Grp 2 (alts [''you'', ''u'']), Star sp_qe, Eol],
     ''I'' @ apos @ ''m ChatDB, your AI database assistant! I help you create and manage database tables using natural language. Just tell me what you need!''),
    (icase [Bol, Grp 1 (alts [''nice'', ''cool'', ''awesome'', ''great'', ''perfect'']),
            Star sp_punct, Eol],
     ''Glad you think so! Is there anything else you'' @ apos @ ''d like me to help you with?'')
  ]"

fun first_greeting :: "(regexp \<times> string) list \<Rightarrow> string \<Rightarrow> string option" where
  \<comment> \<open>the loop over the table: the reply of the first pattern found in the text\<close>
  "first_greeting [] s = None"
| "first_greeting ((pattern, response) # ps) s =
     (if test pattern s then Some response else first_greeting ps s)"

definition sp_opt :: "string \<Rightarrow> rx" where
  \<comment> \<open>\<open>(?:word\s+)?\<close>\<close>
  "sp_opt w = Opt (Seq (Lit w) (Plus is_space))"

definition insert_re :: regexp where
  \<comment> \<open>\<open>/insert\s+(?:into\s+)?(?:table\s+)?(\w+)\s+(?:table\s+)?(?:values?\s+)?(.+)/i\<close>\<close>
  "insert_re = icase [Lit ''insert'', Plus is_space, sp_opt ''into'', sp_opt ''table'',
     Grp 1 (Plus is_word), Plus is_space, sp_opt ''table'',
     Opt (seqs [Lit ''value'', Opt (Lit ''s''), Plus is_space]), Grp 2 (Plus is_dot)]"

definition update_re :: regexp where
  \<comment> \<open>\<open>/update\s+(?:table\s+)?(\w+)\s+(?:table\s+)?set\s+(.+?)\s+where\s+(.+)/i\<close>\<close>
  "update_re = icase [Lit ''update'', Plus is_space, sp_opt ''table'', Grp 1 (Plus is_word),
     Plus is_space, sp_opt ''table'', Lit ''set'', Plus is_space, Grp 2 (LazyPlus is_dot),
     Plus is_space, Lit ''where'', Plus is_space, Grp 3 (Plus is_dot)]"

definition delete_re :: regexp where
  \<comment> \<open>\<open>/delete\s+(?:from\s+)?(?:table\s+)?(\w+)\s+(?:table\s+)?where\s+(.+)/i\<close>\<close>
  "delete_re = icase [Lit ''delete'', Plus is_space, sp_opt ''from'', sp_opt ''table'',
     Grp 1 (Plus is_word), Plus is_space, sp_opt ''table'', Lit ''where'', Plus is_space,
     Grp 2 (Plus is_dot)]"

definition create_db_re :: regexp where
  \<comment> \<open>\<open>/create\s+(?:a\s+)?database\s+(?:called\s+|named\s+)?(\w+)/i\<close>\<close>
  "create_db_re = icase [Lit ''create'', Plus is_space, sp_opt ''a'', Lit ''database'', Plus is_space,
     Opt (Alt (Seq (Lit ''called'') (Plus is_space)) (Seq (Lit ''named'') (Plus is_space))),
     Grp 1 (Plus is_word)]"

definition create_table_re :: regexp where
  \<comment> \<open>\<open>/(?:create\s+(?:a\s+)?table\s+)(\w+)/i\<close>\<close>
  "create_table_re = icase [Lit ''create'', Plus is_space, sp_opt ''a'', Lit ''table'', Plus is_space,
     Grp 1 (Plus is_word)]"

definition columns_re :: regexp where
  \<comment> \<open>\<open>/(?:table\s+\w+\s+(?:with\s+)?)(.*?)(?:\s+in\s+database\s+|$)/i\<close>\<close>
  "columns_re = icase [Lit ''table'', Plus is_space, Plus is_word, Plus is_space, sp_opt ''with'',
     Grp 1 (LazyStar is_dot),
     Alt (seqs [Plus is_space, Lit ''in'', Plus is_space, Lit ''database'', Plus is_space]) Eol]"

definition in_db_re :: regexp where
  \<comment> \<open>\<open>/in\s+(?:database\s+)?(\w+)\s*$/i\<close>\<close>
  "in_db_re = icase [Lit ''in'', Plus is_space, sp_opt ''database'', Grp 1 (Plus is_word),
     Star is_space, Eol]"

definition drop_db_re :: regexp where
  \<comment> \<open>\<open>/(?:delete|drop)\s+(?:database\s+)?(\w+)/i\<close>\<close>
  "drop_db_re = icase [alts [''delete'', ''drop''], Plus is_space, sp_opt ''database'',
     Grp 1 (Plus is_word)]"

definition drop_table_re :: regexp where
  \<comment> \<open>\<open>/(?:delete|drop)\s+(?:table\s+)?(\w+)/i\<close>\<close>
  "drop_table_re = icase [alts [''delete'', ''drop''], Plus is_space, sp_opt ''table'',
     Grp 1 (Plus is_word)]"

definition show_re :: regexp where
  \<comment> \<open>\<open>/show\s+(?:(?:all\s+columns\s+of\s+)?)?(?:table\s+)?(\w+)(?:\s+table)?/i\<close>\<close>
  "show_re = icase [Lit ''show'', Plus is_space,
     Opt (Opt (seqs [Lit ''all'', Plus is_space, Lit ''columns'', Plus is_space, Lit ''of'',
                     Plus is_space])),
     sp_opt ''table'', Grp 1 (Plus is_word), Opt (Seq (Plus is_space) (Lit ''table''))]"

definition grp :: "match_result \<Rightarrow> nat \<Rightarrow> string" where
  \<comment> \<open>a group that takes part in every match of its pattern\<close>
  "grp m n = (case group m n of Some s \<Rightarrow> s | None \<Rightarrow> [])"

definition column_of :: "string \<Rightarrow> column" where
  \<comment> \<open>the typing of one column token\<close>
  "column_of col =
     (if includes_str col ''email'' then \<lparr>col_name = col, col_type = ''text''\<rparr>
      else if includes_str col ''id'' then \<lparr>col_name = col, col_type = ''integer''\<rparr>
      else if includes_str col ''age'' \<or> includes_str col ''count'' \<or> includes_str col ''number''
              \<or> includes_str col ''phone'' then \<lparr>col_name = col, col_type = ''integer''\<rparr>
      else \<lparr>col_name = col, col_type = ''text''\<rparr>)"

definition columnsList :: "string \<Rightarrow> column list" where
  "columnsList columnsText =
     map column_of
       (filter (\<lambda>c. c \<noteq> [] \<and> c \<noteq> ''in'')
         (map (\<lambda>c. toLowerCase (trim c)) (split_on CHR '','' columnsText)))"

text \<open>
  The rules of the interpreter, in the order of the source. Each takes the lower-cased,
  trimmed message \<open>msg\<close> and the message as typed, and gives the action it returns, or
  None when control falls through to the next rule.
\<close>

definition act :: "string \<Rightarrow> details \<Rightarrow> ActionDescriptor" where
  "act a d = \<lparr>action = a, details = d\<rparr>"

definition greeting_rule :: "string \<Rightarrow> ActionDescriptor option" where
  "greeting_rule userMessage =
     (case first_greeting greetingPatterns (trim userMessage) of
        Some response \<Rightarrow> Some (act ''conversation'' (no_details\<lparr>d_response := Some response\<rparr>))
      | None \<Rightarrow> None)"

definition insert_rule :: "string \<Rightarrow> string \<Rightarrow> ActionDescriptor option" where
  "insert_rule msg userMessage =
     (if includes_str msg ''insert'' then
        (case match userMessage insert_re of
           Some insertMatch \<Rightarrow>
             Some (act ''insert_row'' (no_details\<lparr>d_tableName := Some (grp insertMatch 1),
               d_values := Some (map trim (split_on CHR '','' (grp insertMatch 2)))\<rparr>))
         | None \<Rightarrow> None)
      else None)"

definition update_rule :: "string \<Rightarrow> string \<Rightarrow> ActionDescriptor option" where
  "update_rule msg userMessage =
     (if includes_str msg ''update'' then
        (case match userMessage update_re of
           Some updateMatch \<Rightarrow>
             Some (act ''update_row'' (no_details\<lparr>d_tableName := Some (grp updateMatch 1),
               d_set := Some (grp updateMatch 2), d_where := Some (grp updateMatch 3)\<rparr>))
         | None \<Rightarrow> None)
      else None)"

definition delete_row_rule :: "string \<Rightarrow> string \<Rightarrow> ActionDescriptor option" where
  "delete_row_rule msg userMessage =
     (if includes_str msg ''delete'' then
        (case match userMessage delete_re of
           Some deleteMatch \<Rightarrow>
             Some (act ''delete_row'' (no_details\<lparr>d_tableName := Some (grp deleteMatch 1),
               d_where := Some (grp deleteMatch 2)\<rparr>))
         | None \<Rightarrow> None)
      else None)"

definition create_database_rule :: "string \<Rightarrow> string \<Rightarrow> ActionDescriptor option" where
  "create_database_rule msg userMessage =
     (if includes_str msg ''create'' \<and> includes_str msg ''database'' \<and> \<not> includes_str msg ''table'' then
        (case match userMessage create_db_re of
           Some dbMatch \<Rightarrow> Some (act ''create_database'' (no_details\<lparr>d_name := Some (grp dbMatch 1)\<rparr>))
         | None \<Rightarrow> None)
      else None)"

definition create_table_rule :: "string \<Rightarrow> string \<Rightarrow> ActionDescriptor option" where
  "create_table_rule msg userMessage =
     (if includes_str msg ''create'' \<and> (includes_str msg ''table'' \<or> includes_str msg ''tables'') then
        (let tableMatch = match userMessage create_table_re;
             columnsMatch = match userMessage columns_re;
             dbMatch = match userMessage in_db_re
         in case tableMatch of
              Some tm \<Rightarrow>
                (let tableName = grp tm 1;
                     columnsText = (case columnsMatch of Some cm \<Rightarrow> grp cm 1 | None \<Rightarrow> []);
                     databaseName = (case dbMatch of Some dm \<Rightarrow> Some (grp dm 1) | None \<Rightarrow> None);
                     cols = columnsList columnsText
                 in if length cols > 0 then
                      Some (act ''create_table'' (no_details\<lparr>d_name := Some tableName,
                        d_columns := Some cols, d_databaseName := Some databaseName\<rparr>))
                    else None)
            | None \<Rightarrow> None)
      else None)"

definition delete_database_rule :: "string \<Rightarrow> string \<Rightarrow> ActionDescriptor option" where
  "delete_database_rule msg userMessage =
     (if (includes_str msg ''delete'' \<or> includes_str msg ''drop'') \<and> includes_str msg ''database''
         \<and> \<not> includes_str msg ''table'' then
        (case match userMessage drop_db_re of
           Some dbMatch \<Rightarrow>
             Some (act ''delete_database'' (no_details\<lparr>d_databaseName := Some (Some (grp dbMatch 1))\<rparr>))
         | None \<Rightarrow> None)
      else None)"

definition show_databases_rule :: "string \<Rightarrow> string \<Rightarrow> ActionDescriptor option" where
  "show_databases_rule msg userMessage =
     (if includes_str msg ''show'' \<and> (includes_str msg ''database'' \<or> includes_str msg ''databases'')
         \<and> \<not> includes_str msg ''table'' then Some (act ''show_databases'' no_details)
      else None)"

definition delete_table_rule :: "string \<Rightarrow> string \<Rightarrow> ActionDescriptor option" where
  "delete_table_rule msg userMessage =
     (if (includes_str msg ''delete'' \<or> includes_str msg ''drop'') \<and> includes_str msg ''table'' then
        (case match userMessage drop_table_re of
           Some tableMatch \<Rightarrow>
             Some (act ''delete_table'' (no_details\<lparr>d_tableName := Some (grp tableMatch 1)\<rparr>))
         | None \<Rightarrow> None)
      else None)"

definition show_table_rule :: "string \<Rightarrow> string \<Rightarrow> ActionDescriptor option" where
  "show_table_rule msg userMessage =
     (if includes_str msg ''show'' then
        (case match userMessage show_re of
           Some tableMatch \<Rightarrow>
             if \<not> includes_str msg ''all table'' \<and> \<not> includes_str msg ''all tables'' then
               Some (act ''show_table'' (no_details\<lparr>d_tableName := Some (grp tableMatch 1)\<rparr>))
             else None
         | None \<Rightarrow> None)
      else None)"

definition show_tables_rule :: "string \<Rightarrow> string \<Rightarrow> ActionDescriptor option" where
  "show_tables_rule msg userMessage =
     (if includes_str msg ''show'' \<and> (includes_str msg ''all table'' \<or> includes_str msg ''all tables'')
      then Some (act ''show_tables'' (no_details\<lparr>d_message := Some userMessage\<rparr>))
      else None)"

definition default_action :: "string \<Rightarrow> ActionDescriptor" where
  "default_action userMessage = act ''query'' (no_details\<lparr>d_message := Some userMessage\<rparr>)"

definition keyword_rules :: "(string \<Rightarrow> string \<Rightarrow> ActionDescriptor option) list" where
  "keyword_rules = [insert_rule, update_rule, delete_row_rule, create_database_rule,
     create_table_rule, delete_database_rule, show_databases_rule, delete_table_rule,
     show_table_rule, show_tables_rule]"

fun first_rule :: "(string \<Rightarrow> string \<Rightarrow> ActionDescriptor option) list \<Rightarrow> string \<Rightarrow> string
    \<Rightarrow> ActionDescriptor" where
  \<comment> \<open>the chain of \<open>if\<close> statements: the first rule that returns decides, the default closes it\<close>
  "first_rule [] msg userMessage = default_action userMessage"
| "first_rule (r # rs) msg userMessage =
     (case r msg userMessage of Some a \<Rightarrow> a | None \<Rightarrow> first_rule rs msg userMessage)"

definition processNaturalLanguageCommand :: "string \<Rightarrow> ActionDescriptor" where
  \<comment> \<open>the function that the specification calls \<open>interpret\<close>\<close>
  "processNaturalLanguageCommand userMessage =
     (let msg = trim (toLowerCase userMessage)
      in case greeting_rule userMessage of
           Some a \<Rightarrow> a
         | None \<Rightarrow> first_rule keyword_rules msg userMessage)"

text \<open>
  Notions used to state the properties of the interpreter. A pattern matches the entire
  text when the pattern between \<open>^\<close> and \<open>$\<close> is found in it; \<open>bol_first\<close> says that a
  pattern begins with \<open>^\<close>, \<open>no_bol\<close> that it has no \<open>^\<close> at all.
\<close>

definition matches_entire :: "regexp \<Rightarrow> string \<Rightarrow> bool" where
  "matches_entire re s = test (re\<lparr>body := Seq Bol (Seq (body re) Eol)\<rparr>) s"

fun bol_first :: "rx \<Rightarrow> bool" where
  "bol_first (Seq Bol r) = True"
| "bol_first r = False"

fun no_bol :: "rx \<Rightarrow> bool" where
  "no_bol Bol = False"
| "no_bol (Seq a b) = (no_bol a \<and> no_bol b)"
| "no_bol (Alt a b) = (no_bol a \<and> no_bol b)"
| "no_bol (Opt a) = no_bol a"
| "no_bol (Grp n a) = no_bol a"
| "no_bol r = True"

definition keyword_type :: "string \<Rightarrow> string" where
  \<comment> \<open>the keyword heuristic in the words of the specification\<close>
  "keyword_type col =
     (if includes_str col ''email'' then ''text''
      else if includes_str col ''id'' then ''integer''
      else if includes_str col ''age'' \<or> includes_str col ''count'' \<or> includes_str col ''number''
              \<or> includes_str col ''phone'' then ''integer''
      else ''text'')"

definition whole_greeting :: "string \<Rightarrow> bool" where
  \<comment> \<open>some pattern of the greeting table matches the entire text\<close>
  "whole_greeting s = list_ex (\<lambda>pr. matches_entire (fst pr) s) greetingPatterns"


section \<open>Values and the type inferencer\<close>

text \<open>
  The values that a cell can hold. A number is modelled by an integer, \<open>NaN\<close> apart;
  fractions are outside the model, and so are the integers of 22 digits and more, which
  JavaScript prints with an exponent.
\<close>

datatype jsval = JUndefined | JNull | JBool bool | JNum int | JNaN | JStr string

datatype error = Error string

function show_nat :: "nat \<Rightarrow> string" where
  "show_nat n =
     (if n < 10 then [char_of (48 + n)] else show_nat (n div 10) @ [char_of (48 + n mod 10)])"
  by pat_completeness auto
termination
  by (relation "measure id") auto

declare show_nat.simps [simp del]

definition show_int :: "int \<Rightarrow> string" where
  "show_int i = (if i < 0 then CHR ''-'' # show_nat (nat (- i)) else show_nat (nat i))"

definition String :: "jsval \<Rightarrow> string" where
  \<comment> \<open>the conversion \<open>String(v)\<close>; a number prints in decimal digits\<close>
  "String v =
     (case v of JUndefined \<Rightarrow> ''undefined'' | JNull \<Rightarrow> ''null''
      | JBool b \<Rightarrow> (if b then ''true'' else ''false'')
      | JNum n \<Rightarrow> show_int n | JNaN \<Rightarrow> ''NaN'' | JStr s \<Rightarrow> s)"

definition truthy :: "jsval \<Rightarrow> bool" where
  \<comment> \<open>what \<open>v || d\<close> and \<open>if (v)\<close> test\<close>
  "truthy v =
     (case v of JUndefined \<Rightarrow> False | JNull \<Rightarrow> False | JBool b \<Rightarrow> b
      | JNum n \<Rightarrow> n \<noteq> 0 | JNaN \<Rightarrow> False | JStr s \<Rightarrow> s \<noteq> [])"

definition or_else :: "jsval \<Rightarrow> jsval \<Rightarrow> jsval" where
  \<comment> \<open>\<open>v || d\<close>\<close>
  "or_else v d = (if truthy v then v else d)"

text \<open>
  The texts that \<open>Number\<close> converts to a number and not to \<open>NaN\<close>, after the grammar of
  numeric string literals of the language standard: white space around nothing at all or
  around a signed decimal literal, \<open>Infinity\<close>, or an unsigned hexadecimal, octal or binary
  literal.
\<close>

definition is_sign :: "char \<Rightarrow> bool" where
  "is_sign c \<longleftrightarrow> c = CHR ''+'' \<or> c = CHR ''-''"

definition is_hex :: "char \<Rightarrow> bool" where
  "is_hex c \<longleftrightarrow> is_digit c \<or> c \<in> set ''abcdefABCDEF''"

definition exponent_part :: rx where
  "exponent_part = seqs [Cls (\<lambda>c. c = CHR ''e'' \<or> c = CHR ''E''), Opt (Cls is_sign), Plus is_digit]"

definition unsigned_decimal :: rx where
  "unsigned_decimal =
     Alt (Lit ''Infinity'')
    (Alt (seqs [Plus is_digit, Lit ''.'', Star is_digit, Opt exponent_part])
    (Alt (seqs [Lit ''.'', Plus is_digit, Opt exponent_part])
         (seqs [Plus is_digit, Opt exponent_part])))"

definition non_decimal :: rx where
  "non_decimal =
     Alt (seqs [Lit ''0'', Cls (\<lambda>c. c = CHR ''x'' \<or> c = CHR ''X''), Plus is_hex])
    (Alt (seqs [Lit ''0'', Cls (\<lambda>c. c = CHR ''o'' \<or> c = CHR ''O''), Plus (\<lambda>c. c \<in> set ''01234567'')])
         (seqs [Lit ''0'', Cls (\<lambda>c. c = CHR ''b'' \<or> c = CHR ''B''), Plus (\<lambda>c. c \<in> set ''01'')]))"

definition string_numeric_literal :: regexp where
  "string_numeric_literal =
     \<lparr>body = seqs [Bol, Star is_space,
                   Opt (Alt non_decimal (Seq (Opt (Cls is_sign)) unsigned_decimal)),
                   Star is_space, Eol],
      ignoreCase = False\<rparr>"

definition Number_isNaN :: "jsval \<Rightarrow> bool" where
  \<comment> \<open>\<open>isNaN(Number(v))\<close>\<close>
  "Number_isNaN v =
     (case v of JUndefined \<Rightarrow> True | JNull \<Rightarrow> False | JBool b \<Rightarrow> False
      | JNum n \<Rightarrow> False | JNaN \<Rightarrow> True | JStr s \<Rightarrow> \<not> test string_numeric_literal s)"

text \<open>
  \<open>Date.parse\<close> reads the date format of the language standard and may read any other
  text by rules of the implementation. \<open>iso_date\<close> recognises the date-only forms of the
  standard format (\<open>YYYY\<close>, \<open>YYYY-MM\<close>, \<open>YYYY-MM-DD\<close>) with a month of the year and a
  day that the month has in every year; whatever else the implementation reads is the
  parameter \<open>legacy\<close>.
\<close>

definition two_digits :: "char \<Rightarrow> char \<Rightarrow> nat option" where
  "two_digits a b =
     (if is_digit a \<and> is_digit b then Some ((of_char a - 48) * 10 + (of_char b - 48)) else None)"

definition days_every_year :: "nat \<Rightarrow> nat" where
  "days_every_year m = (if m = 2 then 28 else if m \<in> {4, 6, 9, 11} then 30 else 31)"

fun iso_date :: "string \<Rightarrow> bool" where
  "iso_date [y1, y2, y3, y4] = (is_digit y1 \<and> is_digit y2 \<and> is_digit y3 \<and> is_digit y4)"
| "iso_date [y1, y2, y3, y4, h, m1, m2] =
     (is_digit y1 \<and> is_digit y2 \<and> is_digit y3 \<and> is_digit y4 \<and> h = CHR ''-'' \<and>
      (case two_digits m1 m2 of Some m \<Rightarrow> 1 \<le> m \<and> m \<le> 12 | None \<Rightarrow> False))"
| "iso_date [y1, y2, y3, y4, h, m1, m2, h', d1, d2] =
     (is_digit y1 \<and> is_digit y2 \<and> is_digit y3 \<and> is_digit y4 \<and> h = CHR ''-'' \<and> h' = CHR ''-'' \<and>
      (case two_digits m1 m2 of
         Some m \<Rightarrow> 1 \<le> m \<and> m \<le> 12 \<and>
           (case two_digits d1 d2 of Some d \<Rightarrow> 1 \<le> d \<and> d \<le> days_every_year m | None \<Rightarrow> False)
       | None \<Rightarrow> False))"
| "iso_date s = False"

definition Date_parse_isNaN :: "(string \<Rightarrow> bool) \<Rightarrow> string \<Rightarrow> bool" where
  \<comment> \<open>\<open>isNaN(Date.parse(s))\<close>\<close>
  "Date_parse_isNaN legacy s = (\<not> (iso_date s \<or> legacy s))"

definition inferColumnType :: "(string \<Rightarrow> bool) \<Rightarrow> jsval list \<Rightarrow> string" where
  "inferColumnType legacy vals =
     (let nonEmptyValues = filter (\<lambda>v. v \<noteq> JNull \<and> v \<noteq> JUndefined \<and> v \<noteq> JStr []) vals
      in if length nonEmptyValues = 0 then ''text''
         else let allNumbers = list_all (\<lambda>v. \<not> Number_isNaN v) nonEmptyValues
              in if allNumbers then ''integer''
                 else let allDates = list_all (\<lambda>v. \<not> Date_parse_isNaN legacy (String v)) nonEmptyValues
                      in if allDates then ''date'' else ''text'')"


section \<open>The tabular extractors\<close>

text \<open>
  A row of a table is an object from column names to values. It is modelled as an
  association list in the order in which the properties are first set; setting a
  property again replaces its value in place.
\<close>

type_synonym row = "(string \<times> jsval) list"

fun put_prop :: "string \<Rightarrow> 'v \<Rightarrow> (string \<times> 'v) list \<Rightarrow> (string \<times> 'v) list" where
  "put_prop k v [] = [(k, v)]"
| "put_prop k v ((k', v') # kvs) =
     (if k' = k then (k, v) # kvs else (k', v') # put_prop k v kvs)"

definition set_prop :: "string \<Rightarrow> jsval \<Rightarrow> row \<Rightarrow> row" where
  \<comment> \<open>\<open>obj[k] = v\<close> for a value that is not an object; the name \<open>__proto__\<close> is the
      accessor of the prototype, and such an assignment to it adds no property\<close>
  "set_prop k v obj = (if k = ''__proto__'' then obj else put_prop k v obj)"

definition Object_values :: "(string \<times> 'v) list \<Rightarrow> 'v list" where
  "Object_values obj = map snd obj"

record ExtractedTable =
  t_name :: string
  t_columns :: "column list"
  t_rows :: "row list"

text \<open>
  The values of a JSON text, as \<open>JSON.parse\<close> gives them. The image extractor returns
  the \<open>tables\<close> member of the oracle's object as it is parsed, whatever its shape; this is
  the second case of \<open>table_list\<close>.
\<close>

datatype json = JPrim jsval | JArray "json list" | JObject "(string \<times> json) list"

datatype table_list = Tables "ExtractedTable list" | FromOracle json

record ExtractedData =
  tables :: table_list
  textContent :: "string option"

definition no_tables :: ExtractedData where
  \<comment> \<open>the object \<open>{ tables: [] }\<close>\<close>
  "no_tables = \<lparr>tables = Tables [], textContent = None\<rparr>"

fun nth_opt :: "'a list \<Rightarrow> nat \<Rightarrow> 'a option" where
  \<comment> \<open>\<open>xs[i]\<close>; None is \<open>undefined\<close>, the value of an index out of range\<close>
  "nth_opt [] i = None"
| "nth_opt (x # xs) 0 = Some x"
| "nth_opt (x # xs) (Suc i) = nth_opt xs i"

definition mapi :: "('a \<Rightarrow> nat \<Rightarrow> 'b) \<Rightarrow> 'a list \<Rightarrow> 'b list" where
  \<comment> \<open>\<open>xs.map((x, idx) => f(x, idx))\<close>\<close>
  "mapi f xs = map (\<lambda>(x, idx). f x idx) (zip xs [0..<length xs])"

function replace_spaces :: "string \<Rightarrow> string" where
  \<comment> \<open>\<open>s.replace(/\s+/g, "_")\<close>: every maximal run of white space becomes one underscore\<close>
  "replace_spaces [] = []"
| "replace_spaces (c # cs) =
     (if is_space c then CHR ''_'' # replace_spaces (dropWhile is_space cs)
      else c # replace_spaces cs)"
  by pat_completeness auto
termination
  by (relation "measure length") (auto simp: le_imp_less_Suc length_dropWhile_le)

definition remove_quotes :: "string \<Rightarrow> string" where
  \<comment> \<open>\<open>s.replace(/"/g, "")\<close>\<close>
  "remove_quotes s = filter (\<lambda>c. c \<noteq> CHR 0x22) s"

definition keep_ident :: "string \<Rightarrow> string" where
  \<comment> \<open>\<open>s.replace(/[^a-z0-9_]/g, "")\<close>\<close>
  "keep_ident s = filter (\<lambda>c. is_lower c \<or> is_digit c \<or> c = CHR ''_'') s"

fun strip_cr :: "string list \<Rightarrow> string list" where
  "strip_cr [] = []"
| "strip_cr [l] = [l]"
| "strip_cr (l # ls) = (if l \<noteq> [] \<and> last l = CHR 0x0D then butlast l else l) # strip_cr ls"

definition split_lines :: "string \<Rightarrow> string list" where
  \<comment> \<open>\<open>s.split(/\r?\n/)\<close>: a carriage return before a line feed belongs to the separator\<close>
  "split_lines s = strip_cr (split_on CHR 0x0A s)"

function split_gaps :: "string \<Rightarrow> string \<Rightarrow> string list" where
  \<comment> \<open>\<open>s.split(/\s{2,}|\t/)\<close>: a separator is a maximal run of two or more white-space
      characters, or a single tab; the first argument is the piece being read, reversed\<close>
  "split_gaps cur [] = [rev cur]"
| "split_gaps cur (c # cs) =
     (if is_space c \<and> cs \<noteq> [] \<and> is_space (hd cs) then
        rev cur # split_gaps [] (dropWhile is_space cs)
      else if c = CHR 0x09 then rev cur # split_gaps [] cs
      else split_gaps (c # cur) cs)"
  by pat_completeness auto
termination
  by (relation "measure (\<lambda>(cur, s). length s)") (auto simp: le_imp_less_Suc length_dropWhile_le)

text \<open>
  The request sent to the generative model, and the shapes of its answer that the image
  extractor reads: a member \<open>text\<close> of the answer, or of its member \<open>response\<close>, that
  is a function returning the text (or raising) or a value.
\<close>

record oracle_request =
  rq_model :: string
  rq_prompt :: string
  rq_mimeType :: string
  rq_data :: string

datatype text_member = TextFunction "error + string" | TextValue jsval

record oracle_response =
  rs_text :: "text_member option"
  rs_response_text :: "text_member option"

text \<open>What the program takes from its platform and its libraries.\<close>

record platform =
  date_legacy :: "string \<Rightarrow> bool"
    \<comment> \<open>the texts that \<open>Date.parse\<close> reads by rules of the implementation\<close>
  xlsx_sheets :: "string \<Rightarrow> error + (string \<times> jsval option list list) list"
    \<comment> \<open>\<open>XLSX.read\<close> and \<open>sheet_to_json\<close> with \<open>header: 1\<close>: the sheets of a workbook in
        order, each with its name and its rows, or the exception raised. A row is an array
        with gaps: an empty cell of the sheet is a gap of the array, None\<close>
  pdfParse :: "string \<Rightarrow> error + string"
    \<comment> \<open>the text of a PDF file, or the exception raised\<close>
  GEMINI_API_KEY :: "string option"
    \<comment> \<open>the variable of the environment; None when it is not set\<close>
  toBase64 :: "string \<Rightarrow> string"
    \<comment> \<open>\<open>buffer.toString("base64")\<close>\<close>
  generateContent :: "oracle_request \<Rightarrow> error + oracle_response"
    \<comment> \<open>the call of the generative model, or the exception raised\<close>
  JSON_parse :: "string \<Rightarrow> error + json"
    \<comment> \<open>\<open>JSON.parse\<close>, or the exception raised\<close>

subsection \<open>Spreadsheets\<close>

definition excel_header :: "jsval \<Rightarrow> string" where
  \<comment> \<open>\<open>String(h || "column").toLowerCase().replace(/\s+/g, "_")\<close>\<close>
  "excel_header h = replace_spaces (toLowerCase (String (or_else h (JStr ''column''))))"

definition cell_at :: "jsval option list \<Rightarrow> nat \<Rightarrow> jsval" where
  \<comment> \<open>\<open>row[idx]\<close>: a gap and an index out of range read as \<open>undefined\<close>\<close>
  "cell_at r idx = (case nth_opt r idx of Some (Some v) \<Rightarrow> v | _ \<Rightarrow> JUndefined)"

definition present :: "'a option list \<Rightarrow> ('a \<times> nat) list" where
  \<comment> \<open>the elements of an array with gaps, each with its index: what \<open>map\<close> and
      \<open>forEach\<close> visit\<close>
  "present xs =
     List.map_filter (\<lambda>(x, idx). map_option (\<lambda>v. (v, idx)) x) (zip xs [0..<length xs])"

definition row_object :: "string list \<Rightarrow> (nat \<Rightarrow> jsval) \<Rightarrow> row" where
  \<comment> \<open>the loop \<open>headers.forEach((header, idx) => rowData[header] = cell(idx))\<close>\<close>
  "row_object headers cell =
     foldl (\<lambda>rowData (header, idx). set_prop header (cell idx) rowData) []
       (zip headers [0..<length headers])"

definition some_value :: "row \<Rightarrow> bool" where
  \<comment> \<open>\<open>Object.values(row).some(v => v !== null && v !== "")\<close>\<close>
  "some_value r = list_ex (\<lambda>v. v \<noteq> JNull \<and> v \<noteq> JStr []) (Object_values r)"

definition excel_sheet ::
    "platform \<Rightarrow> string \<times> jsval option list list \<Rightarrow> ExtractedTable option" where
  \<comment> \<open>the body of the loop over the sheets; None where the source says \<open>continue\<close>.
      \<open>map\<close> keeps the gaps of the header row, so that \<open>headers\<close> has the same gaps, and
      a gap gives no column and no property of a row (the array of the columns has a gap
      there, which the list leaves out)\<close>
  "excel_sheet pf sheet =
     (case sheet of (sheetName, jsonData) \<Rightarrow>
        if length jsonData < 2 then None
        else
          let headers = map (map_option excel_header) (hd jsonData);
              dataRows = tl jsonData;
              columns = map (\<lambda>(name, idx).
                  \<lparr>col_name = name,
                   col_type = inferColumnType (date_legacy pf) (map (\<lambda>r. cell_at r idx) dataRows)\<rparr>)
                (present headers);
              rows = filter some_value
                (map (\<lambda>r.
                    foldl (\<lambda>rowData (header, idx).
                        set_prop header
                          (if cell_at r idx \<noteq> JUndefined then cell_at r idx else JNull) rowData)
                      [] (present headers))
                   dataRows)
          in Some \<lparr>t_name = replace_spaces (toLowerCase sheetName), t_columns = columns,
                   t_rows = rows\<rparr>)"

definition extractFromExcel :: "platform \<Rightarrow> string \<Rightarrow> error + ExtractedData" where
  "extractFromExcel pf buffer =
     (case xlsx_sheets pf buffer of
        Inl e \<Rightarrow> Inl e
      | Inr sheets \<Rightarrow>
          Inr \<lparr>tables = Tables (List.map_filter (excel_sheet pf) sheets), textContent = None\<rparr>)"

subsection \<open>Comma-separated text\<close>

definition csv_header :: "string \<Rightarrow> string" where
  \<comment> \<open>\<open>h.trim().toLowerCase().replace(/\s+/g, "_").replace(/"/g, "")\<close>\<close>
  "csv_header h = remove_quotes (replace_spaces (toLowerCase (trim h)))"

definition csv_cell :: "string \<Rightarrow> string" where
  \<comment> \<open>\<open>c.trim().replace(/"/g, "")\<close>\<close>
  "csv_cell c = remove_quotes (trim c)"

definition extractFromCSV :: "platform \<Rightarrow> string \<Rightarrow> ExtractedData" where
  "extractFromCSV pf content =
     (let lines = filter (\<lambda>line. trim line \<noteq> []) (split_lines content)
      in if length lines < 2 then no_tables
         else
           let headers = map csv_header (split_on CHR '','' (hd lines));
               dataRows = tl lines;
               columns = mapi (\<lambda>name idx.
                   \<lparr>col_name = name,
                    col_type = inferColumnType (date_legacy pf)
                      (map (\<lambda>r. case nth_opt (split_on CHR '','' r) idx of
                                   Some c \<Rightarrow> JStr (csv_cell c) | None \<Rightarrow> JUndefined)
                         dataRows)\<rparr>)
                 headers;
               rows = filter some_value
                 (map (\<lambda>line.
                     let cells = map csv_cell (split_on CHR '','' line)
                     in row_object headers
                          (\<lambda>idx. case nth_opt cells idx of
                                    Some c \<Rightarrow> or_else (JStr c) JNull | None \<Rightarrow> JNull))
                    dataRows)
           in \<lparr>tables = Tables [\<lparr>t_name = ''imported_csv'', t_columns = columns, t_rows = rows\<rparr>],
               textContent = None\<rparr>)"

subsection \<open>Unstructured text\<close>

definition text_header :: "string \<Rightarrow> string" where
  \<comment> \<open>\<open>h.toLowerCase().replace(/\s+/g, "_").replace(/[^a-z0-9_]/g, "")\<close>\<close>
  "text_header h = keep_ident (replace_spaces (toLowerCase h))"

definition name_or_col :: "string \<Rightarrow> nat \<Rightarrow> string" where
  \<comment> \<open>\<open>name || `col_${idx}`\<close>\<close>
  "name_or_col name idx = (if name \<noteq> [] then name else ''col_'' @ show_nat idx)"

definition createTableFromData :: "platform \<Rightarrow> string list list \<Rightarrow> nat \<Rightarrow> ExtractedTable option" where
  "createTableFromData pf data tableIndex =
     (if length data < 2 then None
      else
        let headers = map text_header (hd data);
            dataRows = tl data;
            columns = mapi (\<lambda>name idx.
                \<lparr>col_name = name_or_col name idx,
                 col_type = inferColumnType (date_legacy pf)
                   (map (\<lambda>r. case nth_opt r idx of
                                Some c \<Rightarrow> or_else (JStr c) (JStr []) | None \<Rightarrow> JStr [])
                      dataRows)\<rparr>)
              headers;
            rows = map (\<lambda>r.
                foldl (\<lambda>rowData (header, idx).
                    set_prop (name_or_col header idx)
                      (case nth_opt r idx of Some c \<Rightarrow> or_else (JStr c) JNull | None \<Rightarrow> JNull)
                      rowData)
                  [] (zip headers [0..<length headers]))
              dataRows
        in Some \<lparr>t_name = ''pdf_table_'' @ show_nat (tableIndex + 1), t_columns = columns,
                 t_rows = rows\<rparr>)"

definition line_cells :: "string \<Rightarrow> string list" where
  \<comment> \<open>\<open>line.split(/\s{2,}|\t/).map(c => c.trim()).filter(c => c)\<close>\<close>
  "line_cells line = filter (\<lambda>c. c \<noteq> []) (map trim (split_gaps [] line))"

definition push_table :: "ExtractedTable option \<Rightarrow> ExtractedTable list \<Rightarrow> ExtractedTable list" where
  \<comment> \<open>\<open>if (table) tables.push(table)\<close>\<close>
  "push_table t tbls = (case t of Some table \<Rightarrow> tbls @ [table] | None \<Rightarrow> tbls)"

record scan =
  found :: "ExtractedTable list"     \<comment> \<open>the variable \<open>tables\<close>\<close>
  tableData :: "string list list"
  inTable :: bool

definition scan_line :: "platform \<Rightarrow> scan \<Rightarrow> string \<Rightarrow> scan" where
  \<comment> \<open>the body of the loop over the lines\<close>
  "scan_line pf st line =
     (let cells = line_cells line
      in if length cells \<ge> 2 then
           (let st' = (if \<not> inTable st then st\<lparr>inTable := True, tableData := []\<rparr> else st)
            in st'\<lparr>tableData := tableData st' @ [cells]\<rparr>)
         else if inTable st \<and> length (tableData st) \<ge> 2 then
           st\<lparr>found := push_table (createTableFromData pf (tableData st) (length (found st))) (found st),
              tableData := [], inTable := False\<rparr>
         else st)"

definition text_lines :: "string \<Rightarrow> string list" where
  \<comment> \<open>\<open>text.split("\n").map(l => l.trim()).filter(l => l)\<close>\<close>
  "text_lines text = filter (\<lambda>l. l \<noteq> []) (map trim (split_on CHR 0x0A text))"

definition extractTablesFromText :: "platform \<Rightarrow> string \<Rightarrow> ExtractedTable list" where
  "extractTablesFromText pf text =
     (let st = foldl (scan_line pf) \<lparr>found = [], tableData = [], inTable = False\<rparr> (text_lines text)
      in if inTable st \<and> length (tableData st) \<ge> 2 then
           push_table (createTableFromData pf (tableData st) (length (found st))) (found st)
         else found st)"

definition extractFromPDF :: "platform \<Rightarrow> string \<Rightarrow> ExtractedData" where
  \<comment> \<open>the function catches the exception of the parser itself\<close>
  "extractFromPDF pf buffer =
     (case pdfParse pf buffer of
        Inl e \<Rightarrow> no_tables
      | Inr text \<Rightarrow> \<lparr>tables = Tables (extractTablesFromText pf text), textContent = Some text\<rparr>)"


subsection \<open>Images\<close>

definition dq :: "string \<Rightarrow> string" where
  \<comment> \<open>a text between double quotes\<close>
  "dq s = CHR 0x22 # s @ [CHR 0x22]"

definition image_prompt :: string where
  "image_prompt = join nl [
     ''Analyze this image and extract any tabular data you can find. '',
     ''    Return the data in this exact JSON format:'',
     ''    {'',
     ''      '' @ dq ''tables'' @ '': ['',
     ''        {'',
     ''          '' @ dq ''name'' @ '': '' @ dq ''table_name'' @ '','',
     ''          '' @ dq ''columns'' @ '': [{'' @ dq ''name'' @ '': '' @ dq ''column1'' @ '', ''
        @ dq ''type'' @ '': '' @ dq ''text'' @ ''}, {'' @ dq ''name'' @ '': '' @ dq ''column2''
        @ '', '' @ dq ''type'' @ '': '' @ dq ''integer'' @ ''}],'',
     ''          '' @ dq ''rows'' @ '': [{'' @ dq ''column1'' @ '': '' @ dq ''value1'' @ '', ''
        @ dq ''column2'' @ '': 123}]'',
     ''        }'',
     ''      ]'',
     ''    }'',
     ''    '',
     ''    If no tabular data is found, return: {'' @ dq ''tables'' @ '': []}'',
     ''    Only return valid JSON, no other text.'']"

definition json_re :: regexp where
  \<comment> \<open>\<open>/\{[\s\S]*\}/\<close>\<close>
  "json_re = \<lparr>body = seqs [Lit ''{'', Star (\<lambda>c. True), Lit ''}''], ignoreCase = False\<rparr>"

definition read_member :: "text_member \<Rightarrow> error + string" where
  \<comment> \<open>\<open>typeof m === "function" ? m() : String(m)\<close>\<close>
  "read_member m = (case m of TextFunction r \<Rightarrow> r | TextValue v \<Rightarrow> Inr (String v))"

definition member_truthy :: "text_member option \<Rightarrow> bool" where
  "member_truthy m =
     (case m of None \<Rightarrow> False | Some (TextFunction r) \<Rightarrow> True | Some (TextValue v) \<Rightarrow> truthy v)"

definition response_text :: "oracle_response \<Rightarrow> error + string" where
  \<comment> \<open>the chain of tests that fills \<open>responseText\<close>\<close>
  "response_text response =
     (case rs_text response of
        Some (TextFunction r) \<Rightarrow> r
      | _ \<Rightarrow>
          if member_truthy (rs_text response) then
            (case rs_text response of Some (TextValue v) \<Rightarrow> Inr (String v) | _ \<Rightarrow> Inr [])
          else if member_truthy (rs_response_text response) then
            (case rs_response_text response of Some m \<Rightarrow> read_member m | None \<Rightarrow> Inr [])
          else Inr [])"

definition get_tables :: "json \<Rightarrow> error + json" where
  \<comment> \<open>\<open>parsed.tables\<close>: reading a member of \<open>null\<close> or \<open>undefined\<close> raises, a value
      without the member gives \<open>undefined\<close>\<close>
  "get_tables parsed =
     (case parsed of
        JPrim JNull \<Rightarrow> Inl (Error ''TypeError'')
      | JPrim JUndefined \<Rightarrow> Inl (Error ''TypeError'')
      | JPrim v \<Rightarrow> Inr (JPrim JUndefined)
      | JArray xs \<Rightarrow> Inr (JPrim JUndefined)
      | JObject kvs \<Rightarrow> (case map_of kvs ''tables'' of Some t \<Rightarrow> Inr t | None \<Rightarrow> Inr (JPrim JUndefined)))"

definition truthy_json :: "json \<Rightarrow> bool" where
  "truthy_json j = (case j of JPrim v \<Rightarrow> truthy v | JArray xs \<Rightarrow> True | JObject kvs \<Rightarrow> True)"

definition parsed_result :: "platform \<Rightarrow> string \<Rightarrow> ExtractedData" where
  \<comment> \<open>from the answer of the model to the result, with the \<open>catch\<close> of the function\<close>
  "parsed_result pf responseText =
     (case match responseText json_re of
        None \<Rightarrow> no_tables
      | Some jsonMatch \<Rightarrow>
          (case JSON_parse pf (matched jsonMatch) of
             Inl e \<Rightarrow> no_tables
           | Inr parsed \<Rightarrow>
               (case get_tables parsed of
                  Inl e \<Rightarrow> no_tables
                | Inr t \<Rightarrow>
                    \<lparr>tables = (if truthy_json t then FromOracle t else Tables []),
                     textContent = Some ''Extracted from image using AI''\<rparr>)))"

definition image_request :: "platform \<Rightarrow> string \<Rightarrow> string \<Rightarrow> oracle_request" where
  \<comment> \<open>the argument of \<open>generateContent\<close>: the prompt and the image in base 64\<close>
  "image_request pf buffer mimetype =
     \<lparr>rq_model = ''gemini-2.0-flash'', rq_prompt = image_prompt, rq_mimeType = mimetype,
      rq_data = toBase64 pf buffer\<rparr>"

definition extractFromImage :: "platform \<Rightarrow> string \<Rightarrow> string \<Rightarrow> oracle_request list \<times> ExtractedData" where
  \<comment> \<open>the result, and before it the requests made to the model\<close>
  "extractFromImage pf buffer mimetype =
     (if GEMINI_API_KEY pf = None \<or> GEMINI_API_KEY pf = Some [] then
        ([], \<lparr>tables = Tables [],
              textContent = Some ''Gemini API key not configured for image processing''\<rparr>)
      else
        let request = image_request pf buffer mimetype
        in case generateContent pf request of
             Inl e \<Rightarrow> ([request], no_tables)
           | Inr response \<Rightarrow>
               (case response_text response of
                  Inl e \<Rightarrow> ([request], no_tables)
                | Inr responseText \<Rightarrow> ([request], parsed_result pf responseText)))"

subsection \<open>The dispatch on the file extension\<close>

definition extract_try :: "platform \<Rightarrow> string \<Rightarrow> string \<Rightarrow> string \<Rightarrow> error + ExtractedData" where
  \<comment> \<open>the body of the \<open>try\<close> block\<close>
  "extract_try pf buffer ext mimetype =
     (if ext = ''.xlsx'' \<or> ext = ''.xls'' then extractFromExcel pf buffer
      else if ext = ''.csv'' then Inr (extractFromCSV pf buffer)
      else if ext = ''.pdf'' then Inr (extractFromPDF pf buffer)
      else if ext \<in> set [''.png'', ''.jpg'', ''.jpeg''] then
        Inr (snd (extractFromImage pf buffer mimetype))
      else Inr no_tables)"

definition extractDataFromFile :: "platform \<Rightarrow> string \<Rightarrow> string \<Rightarrow> string \<Rightarrow> ExtractedData" where
  \<comment> \<open>the function that the specification calls \<open>extract\<close>\<close>
  "extractDataFromFile pf buffer ext mimetype =
     (case extract_try pf buffer ext mimetype of Inl e \<Rightarrow> no_tables | Inr d \<Rightarrow> d)"


section \<open>The response formatter\<close>

text \<open>
  Reading a property of an object by a computed name finds the object's own property, or
  else a member that every object inherits, or nothing. The inherited members are
  functions (and, for \<open>__proto__\<close>, an object): they are truthy, and the text of one as a
  string is defined by the implementation; it is the parameter \<open>native\<close> of the formatter.
\<close>

definition inherited_names :: "string list" where
  "inherited_names = [''constructor'', ''__defineGetter__'', ''__defineSetter__'',
     ''hasOwnProperty'', ''__lookupGetter__'', ''__lookupSetter__'', ''isPrototypeOf'',
     ''propertyIsEnumerable'', ''toString'', ''valueOf'', ''__proto__'', ''toLocaleString'']"

datatype 'v lookup = Own 'v | Inherited | Missing

definition get_prop :: "(string \<times> 'v) list \<Rightarrow> string \<Rightarrow> 'v lookup" where
  \<comment> \<open>\<open>obj[k]\<close>\<close>
  "get_prop obj k =
     (case map_of obj k of
        Some v \<Rightarrow> Own v
      | None \<Rightarrow> if k \<in> set inherited_names then Inherited else Missing)"

record stored_table =
  tb_name :: string
  tb_columns :: "column list option"     \<comment> \<open>None when the member is \<open>null\<close>\<close>

record stored_row =
  r_data :: "row option"                 \<comment> \<open>None when the member is missing\<close>

record exec_result =
  res_table :: "stored_table option"
  res_rows :: "stored_row list option"

definition cell_text :: "(string \<Rightarrow> string) \<Rightarrow> stored_row \<Rightarrow> string \<Rightarrow> string" where
  \<comment> \<open>\<open>String(row.data?.[name] || "")\<close>\<close>
  "cell_text native r cname =
     (case r_data r of
        None \<Rightarrow> []
      | Some d \<Rightarrow>
          (case get_prop d cname of
             Own v \<Rightarrow> String (or_else v (JStr []))
           | Inherited \<Rightarrow> native cname
           | Missing \<Rightarrow> []))"

definition or_undefined :: "string option \<Rightarrow> string" where
  \<comment> \<open>a member in a template text; a missing one prints as \<open>undefined\<close>\<close>
  "or_undefined s = (case s of Some t \<Rightarrow> t | None \<Rightarrow> ''undefined'')"

definition or_text :: "string option \<Rightarrow> string \<Rightarrow> string" where
  \<comment> \<open>\<open>s || d\<close> for a member that is a string or missing\<close>
  "or_text s d = (case s of Some t \<Rightarrow> (if t \<noteq> [] then t else d) | None \<Rightarrow> d)"

definition check_mark :: string where
  \<comment> \<open>the characters that begin the success texts, as the source file has them\<close>
  "check_mark = [CHR 0xC3, CHR 0xA2, CHR 0xC5, CHR 0x93, CHR 0xE2, CHR 0x80, CHR 0x9C]"

definition cross_mark :: string where
  "cross_mark = [CHR 0xC3, CHR 0xA2, CHR 0xC5, CHR 0x92]"

definition table_mark :: string where
  "table_mark = [CHR 0xC3, CHR 0xB0, CHR 0xC5, CHR 0xB8, CHR 0xE2, CHR 0x80, CHR 0x9C,
     CHR 0xE2, CHR 0x80, CHR 0xB9]"

definition chart_mark :: string where
  "chart_mark = [CHR 0xC3, CHR 0xB0, CHR 0xC5, CHR 0xB8, CHR 0xE2, CHR 0x80, CHR 0x9C,
     CHR 0xC5, CHR 0xA0]"

definition responses :: "details \<Rightarrow> (string \<times> string) list" where
  \<comment> \<open>the object of the templates, filled from \<open>details\<close>\<close>
  "responses d = [
     (''create_table'', check_mark @ '' Created table '' @ dq (or_undefined (d_name d))
        @ '' with columns: ''
        @ or_undefined (map_option
            (\<lambda>cs. join '', '' (map (\<lambda>c. col_name c @ ''('' @ col_type c @ '')'') cs)) (d_columns d))),
     (''delete_table'', check_mark @ '' Deleted table '' @ dq (or_undefined (d_tableName d))),
     (''insert_row'', check_mark @ '' Inserted row into '' @ dq (or_undefined (d_tableName d))
        @ '' with values: '' @ or_undefined (map_option (join '', '') (d_values d))),
     (''update_row'', check_mark @ '' Updated rows in '' @ dq (or_undefined (d_tableName d))),
     (''delete_row'', check_mark @ '' Deleted rows from '' @ dq (or_undefined (d_tableName d))),
     (''show_tables'', chart_mark @ '' Showing all tables in database''),
     (''query'', ''Processing: '' @ or_text (d_message d) ''your request'')]"

definition show_table_text :: "(string \<Rightarrow> string) \<Rightarrow> stored_table \<Rightarrow> stored_row list \<Rightarrow> string" where
  \<comment> \<open>the table printed for \<open>show_table\<close>\<close>
  "show_table_text native tbl rows =
     (let cols = (case tb_columns tbl of Some cs \<Rightarrow> cs | None \<Rightarrow> []);
          header = join '' | '' (map col_name cols);
          separator = join ''-+-'' (map (\<lambda>c. ''---'') cols);
          tableStr = table_mark @ '' TABLE: '' @ tb_name tbl @ nl @ nl @ header @ nl @ separator @ nl
      in if length rows = 0 then tableStr @ ''(no rows)''
         else tableStr @
           join nl (map (\<lambda>r. join '' | '' (map (\<lambda>c. cell_text native r (col_name c)) cols)) rows))"

definition generateChatResponse ::
    "(string \<Rightarrow> string) \<Rightarrow> string \<Rightarrow> details \<Rightarrow> exec_result option \<Rightarrow> string" where
  \<comment> \<open>the function that the specification calls \<open>format\<close>\<close>
  "generateChatResponse native act_name d result =
     (case (if act_name = ''show_table'' then result else None) of
        Some res \<Rightarrow>
          (case res_table res of
             None \<Rightarrow> cross_mark @ '' Table not found''
           | Some tbl \<Rightarrow>
               show_table_text native tbl (case res_rows res of Some rs \<Rightarrow> rs | None \<Rightarrow> []))
      | None \<Rightarrow>
          (case get_prop (responses d) act_name of
             Own text \<Rightarrow> text
           | Inherited \<Rightarrow> native act_name
           | Missing \<Rightarrow> ''Done: '' @ or_text (d_message d) ''operation complete''))"

definition native_node :: "string \<Rightarrow> string" where
  \<comment> \<open>the text of an inherited member as a string, as Node prints it\<close>
  "native_node n =
     (if n = ''constructor'' then ''function Object() { [native code] }''
      else if n = ''__proto__'' then ''[object Object]''
      else ''function '' @ n @ ''() { [native code] }'')"

definition delete_prop :: "string \<Rightarrow> row \<Rightarrow> row" where
  \<comment> \<open>the object without the property \<open>k\<close>\<close>
  "delete_prop k obj = filter (\<lambda>kv. fst kv \<noteq> k) obj"

definition falsy_values :: "jsval list" where
  \<comment> \<open>the values that are not truthy\<close>
  "falsy_values = [JUndefined, JNull, JBool False, JNum 0, JNaN, JStr []]"


section \<open>Notions for the properties of the extractors\<close>

subsection \<open>Blocks of rows, in the words of the specification\<close>

text \<open>
  A line is a row candidate when it splits into two cells or more. Consecutive row
  candidates form a block: a line that is no candidate ends the block before it, and so
  does the end of the input. \<open>runs\<close> gives the blocks of a list of lines in their order,
  from the rows of the block that is being read.
\<close>

definition is_candidate :: "string \<Rightarrow> bool" where
  "is_candidate line = (2 \<le> length (line_cells line))"

fun runs :: "string list list \<Rightarrow> string list \<Rightarrow> string list list list" where
  "runs cur [] = [cur]"
| "runs cur (l # ls) =
     (if is_candidate l then runs (cur @ [line_cells l]) ls else cur # runs [] ls)"

text \<open>
  The table of a block: its number in the name, the first row as the headers, the rows
  after it as the data.
\<close>

definition block_table :: "platform \<Rightarrow> nat \<times> string list list \<Rightarrow> ExtractedTable" where
  "block_table pf nb =
     (case nb of (n, b) \<Rightarrow>
        \<lparr>t_name = ''pdf_table_'' @ show_nat n,
         t_columns = mapi (\<lambda>h idx.
             \<lparr>col_name = name_or_col (text_header h) idx,
              col_type = inferColumnType (date_legacy pf)
                (map (\<lambda>r. case nth_opt r idx of
                             Some c \<Rightarrow> or_else (JStr c) (JStr []) | None \<Rightarrow> JStr [])
                   (tl b))\<rparr>)
           (hd b),
         t_rows = map (\<lambda>r.
             foldl (\<lambda>rowData (h, idx).
                 set_prop (name_or_col (text_header h) idx)
                   (case nth_opt r idx of Some c \<Rightarrow> or_else (JStr c) JNull | None \<Rightarrow> JNull)
                   rowData)
               [] (zip (hd b) [0..<length (hd b)]))
           (tl b)\<rparr>)"

definition claimed_tables :: "platform \<Rightarrow> string list \<Rightarrow> ExtractedTable list" where
  \<comment> \<open>one table for each block of two rows or more, numbered from 1; a smaller block
      gives nothing\<close>
  "claimed_tables pf ls =
     map (block_table pf) (enumerate 1 (filter (\<lambda>b. 2 \<le> length b) (runs [] ls)))"

definition summary :: "ExtractedTable \<Rightarrow> string \<times> string list \<times> nat" where
  \<comment> \<open>the name of a table, the names of its columns and the number of its rows\<close>
  "summary t = (t_name t, map col_name (t_columns t), length (t_rows t))"

definition finish :: "platform \<Rightarrow> scan \<Rightarrow> ExtractedTable list" where
  \<comment> \<open>what \<open>extractTablesFromText\<close> returns from a state of its loop at the end of the input\<close>
  "finish pf st =
     (if inTable st \<and> length (tableData st) \<ge> 2 then
        push_table (createTableFromData pf (tableData st) (length (found st))) (found st)
      else found st)"

subsection \<open>Column names\<close>

definition ident_char :: "char \<Rightarrow> bool" where
  \<comment> \<open>a lower-case letter, a digit or an underscore\<close>
  "ident_char c \<longleftrightarrow> is_lower c \<or> is_digit c \<or> c = CHR ''_''"

definition column_names :: "table_list \<Rightarrow> string list" where
  \<comment> \<open>the names of all the columns of the tables of a result\<close>
  "column_names ts = (case ts of Tables xs \<Rightarrow> concat (map (\<lambda>t. map col_name (t_columns t)) xs)
                      | FromOracle j \<Rightarrow> [])"

subsection \<open>Spans of braces\<close>

text \<open>
  The first balanced \<open>{...}\<close> of a text, found by counting braces: \<open>balanced_end\<close> gives
  the text up to the brace that closes the depth it is given.
\<close>

fun balanced_end :: "nat \<Rightarrow> string \<Rightarrow> string option" where
  "balanced_end depth [] = None"
| "balanced_end depth (c # cs) =
     (if c = CHR ''{'' then map_option ((#) c) (balanced_end (Suc depth) cs)
      else if c = CHR ''}'' then
        (if depth = 1 then Some [c] else map_option ((#) c) (balanced_end (depth - 1) cs))
      else map_option ((#) c) (balanced_end depth cs))"

fun first_balanced :: "string \<Rightarrow> string option" where
  "first_balanced [] = None"
| "first_balanced (c # cs) =
     (if c = CHR ''{'' then
        (case balanced_end 1 cs of Some s \<Rightarrow> Some (c # s) | None \<Rightarrow> first_balanced cs)
      else first_balanced cs)"

text \<open>The text from the first \<open>{\<close> to the last \<open>}\<close> after it.\<close>

definition brace_span :: "string \<Rightarrow> string option" where
  "brace_span r =
     (let t = dropWhile (\<lambda>c. c \<noteq> CHR ''{'') r
      in if t = [] \<or> CHR ''}'' \<notin> set (tl t) then None
         else Some (CHR ''{'' # rev (dropWhile (\<lambda>c. c \<noteq> CHR ''}'') (rev (tl t)))))"

text \<open>
  The continuation of the matcher after \<open>[\s\S]*\<close> in the pattern of the image
  extractor: the closing brace, and then the result of the match.
\<close>

definition close_k :: "nat \<Rightarrow> string \<Rightarrow> nat \<Rightarrow> string \<Rightarrow> caps \<Rightarrow> match_result option" where
  "close_k p0 inp0 = rx_match (Lit ''}'') False
     (rx_match (Lit []) False
        (\<lambda>p' inp' cp. Some \<lparr>index = p0, matched = take (p' - p0) inp0, groups = cp\<rparr>))"

subsection \<open>Platforms of the examples\<close>

text \<open>A platform where no library succeeds and no key is set.\<close>

definition pf0 :: platform where
  "pf0 = \<lparr>date_legacy = (\<lambda>s. False), xlsx_sheets = (\<lambda>b. Inl (Error ''unreadable'')),
     pdfParse = (\<lambda>b. Inl (Error ''unreadable'')), GEMINI_API_KEY = None, toBase64 = (\<lambda>b. b),
     generateContent = (\<lambda>r. Inl (Error ''unreachable'')),
     JSON_parse = (\<lambda>s. Inl (Error ''SyntaxError''))\<rparr>"

text \<open>A platform whose spreadsheet reader gives one sheet of a header row, with an empty
  cell in the middle, and a data row.\<close>

definition pf2 :: platform where
  "pf2 = pf0\<lparr>xlsx_sheets :=
     (\<lambda>b. Inr [(''Sheet1'', [[Some (JStr ''Price ($)''), None, Some (JStr ''Qty'')],
                              [Some (JNum 1), Some (JStr ''x''), Some (JNum 2)]])])\<rparr>"

text \<open>
  An example for the image extractor: a key is set and the model answers with a JSON object
  followed by a remark in braces. \<open>parse0\<close> stands for \<open>JSON.parse\<close> on the texts of
  the example: it reads the object, and rejects the object followed by the remark.
\<close>

definition object0 :: string where
  "object0 = ''{'' @ dq ''tables'' @ '': [{'' @ dq ''name'' @ '': '' @ dq ''t'' @ ''}]}''"

definition reply0 :: string where
  "reply0 = ''Found one table: '' @ object0 @ '' {end of answer}''"

definition parse0 :: "string \<Rightarrow> error + json" where
  "parse0 s =
     (if s = object0 then Inr (JObject [(''tables'', JArray [JObject [(''name'', JPrim (JStr ''t''))]])])
      else Inl (Error ''SyntaxError''))"

definition pf1 :: platform where
  "pf1 = pf0\<lparr>GEMINI_API_KEY := Some ''secret'',
     generateContent := (\<lambda>r. Inr \<lparr>rs_text = Some (TextValue (JStr reply0)), rs_response_text = None\<rparr>),
     JSON_parse := parse0\<rparr>"

text \<open>The same with prose around the object only.\<close>

definition reply1 :: string where
  "reply1 = ''Found one table: '' @ object0 @ '' That is all.''"

definition pf3 :: platform where
  "pf3 = pf1\<lparr>generateContent :=
     (\<lambda>r. Inr \<lparr>rs_text = Some (TextValue (JStr reply1)), rs_response_text = None\<rparr>)\<rparr>"


section \<open>Properties of the command interpreter\<close>

subsection \<open>Strings and the matcher\<close>

lemma startsWith_iff: "startsWith s p \<longleftrightarrow> (\<exists>t. s = p @ t)"
  by (induction s p rule: startsWith.induct) auto

lemma includes_str_iff: "includes_str s p \<longleftrightarrow> (\<exists>a b. s = a @ p @ b)"
proof (induction s)
  case Nil
  show ?case by auto
next
  case (Cons c cs)
  show ?case
  proof
    assume "includes_str (c # cs) p"
    then consider "startsWith (c # cs) p" | "includes_str cs p" by auto
    then show "\<exists>a b. c # cs = a @ p @ b"
    proof cases
      case 1
      then obtain t where "c # cs = p @ t" by (auto simp: startsWith_iff)
      then have "c # cs = [] @ p @ t" by simp
      then show ?thesis by blast
    next
      case 2
      then obtain a b where "cs = a @ p @ b" using Cons by blast
      then have "c # cs = (c # a) @ p @ b" by simp
      then show ?thesis by blast
    qed
  next
    assume "\<exists>a b. c # cs = a @ p @ b"
    then obtain a b where ab: "c # cs = a @ p @ b" by blast
    show "includes_str (c # cs) p"
    proof (cases a)
      case Nil
      with ab have "startsWith (c # cs) p" by (auto simp: startsWith_iff)
      then show ?thesis by simp
    next
      case (Cons x xs)
      with ab have "cs = xs @ p @ b" by simp
      then have "includes_str cs p" using Cons.IH by blast
      then show ?thesis by simp
    qed
  qed
qed

lemma includes_str_suffix: "includes_str s (a @ b) \<Longrightarrow> includes_str s b"
proof -
  assume "includes_str s (a @ b)"
  then obtain x y where "s = x @ (a @ b) @ y" by (auto simp: includes_str_iff)
  then have "s = (x @ a) @ b @ y" by simp
  then show ?thesis unfolding includes_str_iff by blast
qed

lemma rx_match_Seq_fun: "rx_match (Seq a b) ic k = rx_match a ic (rx_match b ic k)"
  by (intro ext) simp

lemma rx_match_Eol_twice: "rx_match Eol ic (rx_match Eol ic k) = rx_match Eol ic k"
  by (intro ext) simp

lemma rx_match_Bol_twice: "rx_match Bol ic (rx_match Bol ic k) = rx_match Bol ic k"
  by (intro ext) simp

lemma rx_match_Lit_Nil: "rx_match (Lit []) ic k = k"
  by (intro ext) simp

lemma seqs_Cons: "seqs (r # rs) = Seq r (seqs rs)"
  by (simp add: seqs_def)

lemma seqs_Nil: "seqs [] = Lit []"
  by (simp add: seqs_def)

lemma seqs_Eol_absorb:
  "rx_match (seqs (rs @ [Eol])) ic (rx_match Eol ic k) = rx_match (seqs (rs @ [Eol])) ic k"
  by (induction rs)
     (simp_all only: append.simps seqs_Cons seqs_Nil rx_match_Seq_fun rx_match_Lit_Nil rx_match_Eol_twice)

lemma search_Bol_later:
  "0 < p \<Longrightarrow> search \<lparr>body = Seq Bol r, ignoreCase = ic\<rparr> p inp = None"
  by (induction inp arbitrary: p) (simp_all add: match_here_def)

lemma test_Bol:
  "test \<lparr>body = Seq Bol r, ignoreCase = ic\<rparr> s
     = (match_here \<lparr>body = Seq Bol r, ignoreCase = ic\<rparr> 0 s \<noteq> None)"
  by (cases s) (simp_all add: test_def match_def search_Bol_later split: option.splits)

text \<open>A pattern of the form \<open>^...$\<close> is found in a text only by matching all of it.\<close>

lemma entire_anchored:
  "matches_entire (icase (Bol # rs @ [Eol])) s = test (icase (Bol # rs @ [Eol])) s"
  unfolding matches_entire_def icase_def
  by (simp add: seqs_Cons test_Bol match_here_def rx_match_Seq_fun rx_match_Bol_twice seqs_Eol_absorb)

text \<open>
  Whether a pattern without \<open>^\<close> matches at a position depends on the text from that
  position on only, not on the position.
\<close>

lemma greedy_None_cong:
  assumes "\<And>p p' inp cp cp'. (k p inp cp = None) = (k' p' inp cp' = None)"
  shows "(greedy f k p inp cp = None) = (greedy f k' p' inp cp' = None)"
proof (induction inp arbitrary: p p')
  case Nil
  show ?case using assms by simp
next
  case (Cons c cs)
  show ?case using Cons [of "Suc p" "Suc p'"] assms [of p "c # cs" cp p' cp']
    by (auto split: option.splits)
qed

lemma lazy_None_cong:
  assumes "\<And>p p' inp cp cp'. (k p inp cp = None) = (k' p' inp cp' = None)"
  shows "(lazy f k p inp cp = None) = (lazy f k' p' inp cp' = None)"
proof (induction inp arbitrary: p p')
  case Nil
  show ?case using assms by simp
next
  case (Cons c cs)
  show ?case using Cons [of "Suc p" "Suc p'"] assms [of p "c # cs" cp p' cp']
    by (auto split: option.splits)
qed

lemma rx_match_None_cong:
  "no_bol r \<Longrightarrow> (\<And>p p' inp cp cp'. (k p inp cp = None) = (k' p' inp cp' = None))
   \<Longrightarrow> (rx_match r ic k p inp cp = None) = (rx_match r ic k' p' inp cp' = None)"
proof (induction r arbitrary: k k' p p' inp cp cp')
  case (Lit s)
  then show ?case by (auto split: option.splits)
next
  case (Cls f)
  then show ?case by (auto split: list.splits)
next
  case (Star f)
  then show ?case by (simp add: greedy_None_cong)
next
  case (LazyStar f)
  then show ?case by (simp add: lazy_None_cong)
next
  case (Seq a b)
  have "\<And>p p' inp cp cp'. (rx_match b ic k p inp cp = None) = (rx_match b ic k' p' inp cp' = None)"
    using Seq.IH(2) Seq.prems by simp
  then show ?case using Seq.IH(1) Seq.prems(1) by simp
next
  case (Alt a b)
  have a: "(rx_match a ic k p inp cp = None) = (rx_match a ic k' p' inp cp' = None)"
    using Alt.IH(1) Alt.prems by simp
  have b: "(rx_match b ic k p inp cp = None) = (rx_match b ic k' p' inp cp' = None)"
    using Alt.IH(2) Alt.prems by simp
  show ?case using a b by (auto split: option.splits)
next
  case (Opt a)
  have a: "(rx_match a ic k p inp cp = None) = (rx_match a ic k' p' inp cp' = None)"
    using Opt.IH Opt.prems by simp
  show ?case using a Opt.prems(2) [of p inp cp p' cp'] by (auto split: option.splits)
next
  case (Grp n a)
  show ?case using Grp.prems(1)
    by (simp, intro Grp.IH) (simp_all add: Grp.prems(2))
next
  case Bol
  then show ?case by simp
next
  case Eol
  then show ?case by simp
qed

lemma search_Some_iff:
  "(search re p inp \<noteq> None) = (\<exists>n\<le>length inp. match_here re (p + n) (drop n inp) \<noteq> None)"
proof (induction inp arbitrary: p)
  case Nil
  show ?case by simp
next
  case (Cons c cs)
  have "(\<exists>n\<le>length (c # cs). match_here re (p + n) (drop n (c # cs)) \<noteq> None)
      = (match_here re p (c # cs) \<noteq> None \<or> (\<exists>n\<le>length cs. match_here re (Suc p + n) (drop n cs) \<noteq> None))"
    (is "?L = ?R")
  proof
    assume ?L
    then obtain n where n: "n \<le> length (c # cs)" "match_here re (p + n) (drop n (c # cs)) \<noteq> None"
      by blast
    show ?R
    proof (cases n)
      case 0
      with n show ?thesis by simp
    next
      case (Suc m)
      with n show ?thesis by auto
    qed
  next
    assume ?R
    then show ?L
    proof
      assume "match_here re p (c # cs) \<noteq> None"
      then have "0 \<le> length (c # cs) \<and> match_here re (p + 0) (drop 0 (c # cs)) \<noteq> None" by simp
      then show ?L by blast
    next
      assume "\<exists>n\<le>length cs. match_here re (Suc p + n) (drop n cs) \<noteq> None"
      then obtain n where "n \<le> length cs" "match_here re (Suc p + n) (drop n cs) \<noteq> None" by blast
      then have "Suc n \<le> length (c # cs) \<and> match_here re (p + Suc n) (drop (Suc n) (c # cs)) \<noteq> None"
        by simp
      then show ?L by blast
    qed
  qed
  then show ?case using Cons [of "Suc p"] by (auto split: option.splits)
qed

text \<open>A pattern of the form \<open>...$\<close> without \<open>^\<close> is found in a text exactly when it
  matches all of some end piece of the text.\<close>

lemma end_anchored:
  assumes "no_bol (seqs rs)"
  shows "test (icase (rs @ [Eol])) s = (\<exists>n\<le>length s. matches_entire (icase (rs @ [Eol])) (drop n s))"
proof -
  let ?re = "icase (rs @ [Eol])"
  have nb: "no_bol (seqs (rs @ [Eol]))"
    using assms by (induction rs) (simp_all add: seqs_Cons seqs_Nil)
  have m: "(match_here ?re n inp \<noteq> None) = matches_entire ?re inp" for n inp
  proof -
    have "(rx_match (seqs (rs @ [Eol])) True
             (\<lambda>p' inp' cp. Some \<lparr>index = n, matched = take (p' - n) inp, groups = cp\<rparr>) n inp [] = None)
        = (rx_match (seqs (rs @ [Eol])) True
             (\<lambda>p' inp' cp. Some \<lparr>index = 0, matched = take (p' - 0) inp, groups = cp\<rparr>) 0 inp [] = None)"
      by (rule rx_match_None_cong [OF nb]) simp
    also have "rx_match (seqs (rs @ [Eol])) True
             (\<lambda>p' inp' cp. Some \<lparr>index = 0, matched = take (p' - 0) inp, groups = cp\<rparr>)
        = rx_match (seqs (rs @ [Eol])) True (rx_match Eol True
             (\<lambda>p' inp' cp. Some \<lparr>index = 0, matched = take (p' - 0) inp, groups = cp\<rparr>))"
      by (simp only: seqs_Eol_absorb)
    finally show ?thesis
      by (simp add: matches_entire_def icase_def test_Bol match_here_def rx_match_Seq_fun)
  qed
  have "test ?re s = (\<exists>n\<le>length s. match_here ?re (0 + n) (drop n s) \<noteq> None)"
    unfolding test_def match_def by (rule search_Some_iff)
  then show ?thesis by (simp only: m)
qed

subsection \<open>The chain of rules\<close>

lemma first_rule_cases:
  "first_rule rs m u = a \<Longrightarrow>
     (\<exists>r\<in>set rs. r m u = Some a) \<or> ((\<forall>r\<in>set rs. r m u = None) \<and> a = default_action u)"
  by (induction rs) (auto split: option.splits)

lemma first_rule_default:
  "(\<forall>r\<in>set rs. r m u = None) \<Longrightarrow> first_rule rs m u = default_action u"
  by (induction rs) auto

lemma first_greeting_None:
  "first_greeting ps s = None \<longleftrightarrow> (\<forall>pr\<in>set ps. \<not> test (fst pr) s)"
  by (induction ps s rule: first_greeting.induct) auto

lemma keyword_rule_action:
  assumes "r \<in> set keyword_rules" "r m u = Some a"
  shows "action a \<in> set [''insert_row'', ''update_row'', ''delete_row'', ''create_database'',
     ''create_table'', ''delete_database'', ''show_databases'', ''delete_table'', ''show_table'',
     ''show_tables'']"
  using assms
  unfolding keyword_rules_def insert_rule_def update_rule_def delete_row_rule_def
    create_database_rule_def create_table_rule_def delete_database_rule_def
    show_databases_rule_def delete_table_rule_def show_table_rule_def show_tables_rule_def act_def
  by (auto simp: Let_def split: if_splits option.splits)

lemma create_table_rule_columns:
  assumes "create_table_rule m u = Some a"
  shows "\<exists>t. d_columns (details a) = Some (columnsList t) \<and> columnsList t \<noteq> []"
  using assms unfolding create_table_rule_def act_def
  by (fastforce simp: Let_def no_details_def split: if_splits option.splits)

lemma keyword_rule_columns:
  assumes "r \<in> set keyword_rules" "r m u = Some a" "action a = ''create_table''"
  shows "\<exists>t. d_columns (details a) = Some (columnsList t) \<and> columnsList t \<noteq> []"
proof (cases "r = create_table_rule")
  case True
  with assms(2) show ?thesis by (simp add: create_table_rule_columns)
next
  case False
  with assms have False
    unfolding keyword_rules_def insert_rule_def update_rule_def delete_row_rule_def
      create_database_rule_def delete_database_rule_def
      show_databases_rule_def delete_table_rule_def show_table_rule_def show_tables_rule_def act_def
    by (auto split: if_splits option.splits)
  then show ?thesis ..
qed

lemma conversation_iff:
  "action (processNaturalLanguageCommand u) = ''conversation'' \<longleftrightarrow>
     first_greeting greetingPatterns (trim u) \<noteq> None"
proof (cases "first_greeting greetingPatterns (trim u)")
  case None
  then have g: "greeting_rule u = None" by (simp add: greeting_rule_def)
  define a where "a = first_rule keyword_rules (trim (toLowerCase u)) u"
  have pa: "processNaturalLanguageCommand u = a"
    by (simp add: processNaturalLanguageCommand_def g a_def)
  from first_rule_cases [OF a_def [symmetric]]
  have "action a \<noteq> ''conversation''"
  proof
    assume "\<exists>r\<in>set keyword_rules. r (trim (toLowerCase u)) u = Some a"
    then obtain r where "r \<in> set keyword_rules" "r (trim (toLowerCase u)) u = Some a" by blast
    from keyword_rule_action [OF this] show ?thesis by auto
  next
    assume "(\<forall>r\<in>set keyword_rules. r (trim (toLowerCase u)) u = None) \<and> a = default_action u"
    then show ?thesis by (simp add: default_action_def act_def)
  qed
  with None pa show ?thesis by simp
next
  case (Some r)
  then show ?thesis
    by (simp add: processNaturalLanguageCommand_def greeting_rule_def act_def)
qed

lemma column_of_keyword_type:
  "col_name (column_of c) = c \<and> col_type (column_of c) = keyword_type c"
  by (simp add: column_of_def keyword_type_def)

text \<open>How each pattern of the greeting table is found in a text.\<close>

lemma greeting_found:
  assumes "pr \<in> set greetingPatterns"
  shows "test (fst pr) s =
     (if bol_first (body (fst pr)) then matches_entire (fst pr) s
      else (\<exists>n\<le>length s. matches_entire (fst pr) (drop n s)))"
proof -
  have e: "\<And>a b. icase [Bol, a, b, Eol] = icase (Bol # [a, b] @ [Eol])"
          "\<And>a b c d. icase [Bol, a, b, c, d, Eol] = icase (Bol # [a, b, c, d] @ [Eol])"
          "\<And>a b c d e f. icase [Lit a, b, c, d, e, f, Eol] = icase ([Lit a, b, c, d, e, f] @ [Eol])"
          "\<And>a b c d e f g h. icase [Lit a, b, c, d, e, f, g, h, Eol]
              = icase ([Lit a, b, c, d, e, f, g, h] @ [Eol])"
    by simp_all
  have b: "\<And>rs. bol_first (body (icase (Bol # rs)))"
    by (simp add: icase_def seqs_Cons)
  have nb: "\<And>a rs. \<not> bol_first (body (icase (Lit a # rs)))"
    by (simp add: icase_def seqs_Cons)
  have f: "no_bol (foldr (\<lambda>w r. Alt (Lit w) r) xs (Lit x))" for xs x
    by (induction xs) simp_all
  have n: "\<And>f. no_bol (Plus f)" "\<And>ws. no_bol (alts ws)"
    by (simp_all add: Plus_def alts_def f)
  from assms show ?thesis
    unfolding greetingPatterns_def
    apply (simp only: set_simps insert_iff empty_iff)
    apply (elim disjE)
    apply (simp_all only: fst_conv b nb if_True if_False)
    apply (simp_all only: e entire_anchored)
    apply (rule end_anchored, simp add: seqs_Cons seqs_Nil n)+
    done
qed


subsection \<open>Creating a table\<close>

text \<open>
  C3: the interpreter (\<open>processNaturalLanguageCommand\<close>) on
  "create a table student with id, name, email" returns the action \<open>create_table\<close> with
  name \<open>student\<close>, the columns \<open>id\<close> (integer), \<open>name\<close> (text), \<open>email\<close> (text) and the
  database name \<open>null\<close>; on "create table student with id, name in database school" it
  returns the database name \<open>school\<close> and the columns \<open>id\<close> and \<open>name\<close> only; and whenever
  it returns \<open>create_table\<close>, the columns are the non-empty list of the comma-split,
  trimmed, lower-cased tokens of some text, each typed by the keyword heuristic
  (\<open>email\<close> gives text, else \<open>id\<close> gives integer, else \<open>age\<close>, \<open>count\<close>, \<open>number\<close> or
  \<open>phone\<close> gives integer, else text).
\<close>

theorem create_table_columns:
  "processNaturalLanguageCommand ''create a table student with id, name, email'' =
     \<lparr>action = ''create_table'',
      details = no_details\<lparr>d_name := Some ''student'',
        d_columns := Some [\<lparr>col_name = ''id'', col_type = ''integer''\<rparr>,
                           \<lparr>col_name = ''name'', col_type = ''text''\<rparr>,
                           \<lparr>col_name = ''email'', col_type = ''text''\<rparr>],
        d_databaseName := Some None\<rparr>\<rparr>
   \<and> processNaturalLanguageCommand ''create table student with id, name in database school'' =
     \<lparr>action = ''create_table'',
      details = no_details\<lparr>d_name := Some ''student'',
        d_columns := Some [\<lparr>col_name = ''id'', col_type = ''integer''\<rparr>,
                           \<lparr>col_name = ''name'', col_type = ''text''\<rparr>],
        d_databaseName := Some (Some ''school'')\<rparr>\<rparr>
   \<and> (action (processNaturalLanguageCommand u) = ''create_table'' \<longrightarrow>
        (\<exists>t cs. d_columns (details (processNaturalLanguageCommand u)) = Some cs \<and> cs \<noteq> []
           \<and> cs = columnsList t
           \<and> (\<forall>c\<in>set cs. col_type c = keyword_type (col_name c)
                 \<and> col_name c \<in> set (map (\<lambda>x. toLowerCase (trim x)) (split_on CHR '','' t)))))"
proof (intro conjI impI)
  show "processNaturalLanguageCommand ''create a table student with id, name, email'' =
     \<lparr>action = ''create_table'',
      details = no_details\<lparr>d_name := Some ''student'',
        d_columns := Some [\<lparr>col_name = ''id'', col_type = ''integer''\<rparr>,
                           \<lparr>col_name = ''name'', col_type = ''text''\<rparr>,
                           \<lparr>col_name = ''email'', col_type = ''text''\<rparr>],
        d_databaseName := Some None\<rparr>\<rparr>"
    by code_simp
next
  show "processNaturalLanguageCommand ''create table student with id, name in database school'' =
     \<lparr>action = ''create_table'',
      details = no_details\<lparr>d_name := Some ''student'',
        d_columns := Some [\<lparr>col_name = ''id'', col_type = ''integer''\<rparr>,
                           \<lparr>col_name = ''name'', col_type = ''text''\<rparr>],
        d_databaseName := Some (Some ''school'')\<rparr>\<rparr>"
    by code_simp
next
  assume ct: "action (processNaturalLanguageCommand u) = ''create_table''"
  define a where "a = processNaturalLanguageCommand u"
  have "first_greeting greetingPatterns (trim u) = None"
    using ct conversation_iff [of u] by auto
  then have "a = first_rule keyword_rules (trim (toLowerCase u)) u"
    by (simp add: a_def processNaturalLanguageCommand_def greeting_rule_def)
  from first_rule_cases [OF this [symmetric]] ct
  obtain r where r: "r \<in> set keyword_rules" "r (trim (toLowerCase u)) u = Some a"
    by (auto simp: a_def [symmetric] default_action_def act_def)
  from keyword_rule_columns [OF r] ct
  obtain t where t: "d_columns (details a) = Some (columnsList t)" "columnsList t \<noteq> []"
    by (auto simp: a_def)
  have "\<forall>c\<in>set (columnsList t). col_type c = keyword_type (col_name c)
          \<and> col_name c \<in> set (map (\<lambda>x. toLowerCase (trim x)) (split_on CHR '','' t))"
    by (auto simp: columnsList_def column_of_keyword_type)
  with t show "\<exists>t cs. d_columns (details (processNaturalLanguageCommand u)) = Some cs \<and> cs \<noteq> []
           \<and> cs = columnsList t
           \<and> (\<forall>c\<in>set cs. col_type c = keyword_type (col_name c)
                 \<and> col_name c \<in> set (map (\<lambda>x. toLowerCase (trim x)) (split_on CHR '','' t)))"
    unfolding a_def by blast
qed

theorem create_table_columns_witness:
  "action (processNaturalLanguageCommand ''create table parts with width, Email ID'') = ''create_table''
   \<and> d_columns (details (processNaturalLanguageCommand ''create table parts with width, Email ID''))
       = Some [\<lparr>col_name = ''width'', col_type = ''integer''\<rparr>,
               \<lparr>col_name = ''email id'', col_type = ''text''\<rparr>]
   \<and> keyword_type ''width'' = ''integer'' \<and> keyword_type ''email id'' = ''text''"
proof -
  have a: "action (processNaturalLanguageCommand ''create table parts with width, Email ID'')
      = ''create_table''"
    by code_simp
  have "\<exists>t cs. d_columns (details (processNaturalLanguageCommand
            ''create table parts with width, Email ID'')) = Some cs \<and> cs \<noteq> [] \<and> cs = columnsList t
          \<and> (\<forall>c\<in>set cs. col_type c = keyword_type (col_name c)
                \<and> col_name c \<in> set (map (\<lambda>x. toLowerCase (trim x)) (split_on CHR '','' t)))"
    using create_table_columns [of "''create table parts with width, Email ID''"] a by blast
  moreover have "d_columns (details (processNaturalLanguageCommand
        ''create table parts with width, Email ID''))
       = Some [\<lparr>col_name = ''width'', col_type = ''integer''\<rparr>,
               \<lparr>col_name = ''email id'', col_type = ''text''\<rparr>]"
    by code_simp
  moreover have "keyword_type ''width'' = ''integer''" "keyword_type ''email id'' = ''text''"
    by code_simp+
  ultimately show ?thesis using a by blast
qed

subsection \<open>Precedence of the triggers\<close>

text \<open>
  C4, as the claim states it, fails on the words "the three show branches are mutually
  exclusive": on "show databases" the condition of the show-databases branch holds, and the
  show-one-table branch would return as well, were it reached.
\<close>

theorem show_branches_overlap:
  "show_databases_rule (trim (toLowerCase ''show databases'')) ''show databases''
     = Some \<lparr>action = ''show_databases'', details = no_details\<rparr>
   \<and> show_table_rule (trim (toLowerCase ''show databases'')) ''show databases''
     = Some \<lparr>action = ''show_table'', details = no_details\<lparr>d_tableName := Some ''databases''\<rparr>\<rparr>"
  by code_simp

text \<open>
  C4, amended: "delete database school" gives \<open>delete_database\<close>, not \<open>delete_table\<close>;
  "show all tables" gives \<open>show_tables\<close> and "show student" gives \<open>show_table\<close> with
  table name \<open>student\<close>. On no message do the show-all-tables branch and the show-one-table
  branch both return, nor the show-all-tables branch and the show-databases branch. The
  show-databases branch and the show-one-table branch can both apply; the order of the
  chain decides for the first, so that "show databases" gives \<open>show_databases\<close>.
\<close>

theorem trigger_precedence:
  "action (processNaturalLanguageCommand ''delete database school'') = ''delete_database''
   \<and> action (processNaturalLanguageCommand ''delete database school'') \<noteq> ''delete_table''
   \<and> processNaturalLanguageCommand ''show all tables'' =
       \<lparr>action = ''show_tables'', details = no_details\<lparr>d_message := Some ''show all tables''\<rparr>\<rparr>
   \<and> processNaturalLanguageCommand ''show student'' =
       \<lparr>action = ''show_table'', details = no_details\<lparr>d_tableName := Some ''student''\<rparr>\<rparr>
   \<and> \<not> (show_tables_rule m u \<noteq> None \<and> show_table_rule m u \<noteq> None)
   \<and> \<not> (show_tables_rule m u \<noteq> None \<and> show_databases_rule m u \<noteq> None)
   \<and> processNaturalLanguageCommand ''show databases'' =
       \<lparr>action = ''show_databases'', details = no_details\<rparr>"
proof (intro conjI)
  show "action (processNaturalLanguageCommand ''delete database school'') = ''delete_database''"
    by code_simp
  then show "action (processNaturalLanguageCommand ''delete database school'') \<noteq> ''delete_table''"
    by simp
  show "processNaturalLanguageCommand ''show all tables'' =
       \<lparr>action = ''show_tables'', details = no_details\<lparr>d_message := Some ''show all tables''\<rparr>\<rparr>"
    by code_simp
  show "processNaturalLanguageCommand ''show student'' =
       \<lparr>action = ''show_table'', details = no_details\<lparr>d_tableName := Some ''student''\<rparr>\<rparr>"
    by code_simp
  show "\<not> (show_tables_rule m u \<noteq> None \<and> show_table_rule m u \<noteq> None)"
    by (auto simp: show_tables_rule_def show_table_rule_def split: if_splits option.splits)
  have "includes_str m ''all table'' \<Longrightarrow> includes_str m ''table''"
       "includes_str m ''all tables'' \<Longrightarrow> includes_str m ''table''"
    using includes_str_suffix [of m "''all ''" "''table''"]
      includes_str_suffix [of m "''all ''" "''tables''"]
      includes_str_iff [of m "''tables''"] includes_str_iff [of m "''table''"]
    by (simp, simp, metis append_Cons append_Nil)
  then show "\<not> (show_tables_rule m u \<noteq> None \<and> show_databases_rule m u \<noteq> None)"
    by (auto simp: show_tables_rule_def show_databases_rule_def split: if_splits)
  show "processNaturalLanguageCommand ''show databases'' =
       \<lparr>action = ''show_databases'', details = no_details\<rparr>"
    by code_simp
qed

theorem trigger_precedence_witness:
  "show_tables_rule ''show all tables'' ''show all tables'' \<noteq> None
   \<and> show_table_rule ''show all tables'' ''show all tables'' = None
   \<and> show_databases_rule ''show all tables'' ''show all tables'' = None"
  using trigger_precedence [of "''show all tables''" "''show all tables''"]
  by (simp add: show_tables_rule_def)

subsection \<open>Greetings\<close>

text \<open>
  C5: the interpreter answers with \<open>conversation\<close> only when a pattern of the greeting
  table matches the entire trimmed message. This fails: three of the fourteen patterns
  ("how are you", "what can you do", "who are you") lack the \<open>^\<close> that the eleven others
  begin with, and are found at the end of any message. The commands "insert into notes
  values 1, how are you" and "delete from faq where question = who are you?" are answered
  as conversation, although no pattern matches either of them entirely and the rules of
  the commands, asked alone, read them as \<open>insert_row\<close> and \<open>delete_row\<close>; so is "show
  table x how are you". A phrase of a pattern that begins with \<open>^\<close> leaves the command
  alone: "show table x thanks" is \<open>show_table\<close> and "insert into notes values 1, good
  morning" is \<open>insert_row\<close>.
\<close>

theorem greeting_swallows_command:
  "action (processNaturalLanguageCommand ''insert into notes values 1, how are you'') = ''conversation''
   \<and> \<not> whole_greeting (trim ''insert into notes values 1, how are you'')
   \<and> action (first_rule keyword_rules (trim (toLowerCase ''insert into notes values 1, how are you''))
         ''insert into notes values 1, how are you'') = ''insert_row''
   \<and> action (processNaturalLanguageCommand ''delete from faq where question = who are you?'')
       = ''conversation''
   \<and> \<not> whole_greeting (trim ''delete from faq where question = who are you?'')
   \<and> action (first_rule keyword_rules (trim (toLowerCase ''delete from faq where question = who are you?''))
         ''delete from faq where question = who are you?'') = ''delete_row''
   \<and> action (processNaturalLanguageCommand ''show table x how are you'') = ''conversation''
   \<and> \<not> whole_greeting (trim ''show table x how are you'')
   \<and> action (processNaturalLanguageCommand ''show table x thanks'') = ''show_table''
   \<and> action (processNaturalLanguageCommand ''insert into notes values 1, good morning'') = ''insert_row''
   \<and> length (filter (\<lambda>pr. bol_first (body (fst pr))) greetingPatterns) = 11
   \<and> length greetingPatterns = 14"
proof (intro conjI)
  show "length (filter (\<lambda>pr. bol_first (body (fst pr))) greetingPatterns) = 11"
    by (simp add: greetingPatterns_def icase_def seqs_def)
  show "length greetingPatterns = 14"
    by (simp add: greetingPatterns_def)
qed code_simp+


section \<open>Properties of the type inferencer\<close>

text \<open>
  C2: the type inferencer (\<open>inferColumnType\<close>) discards the entries that are \<open>null\<close>,
  \<open>undefined\<close> or the empty string; with \<open>rest\<close> the entries that remain, it returns
  \<open>integer\<close> exactly when \<open>rest\<close> is not empty and \<open>Number\<close> reads every entry of it,
  \<open>date\<close> exactly when \<open>rest\<close> is not empty, \<open>Number\<close> fails on some entry and
  \<open>Date.parse\<close> reads every entry, and \<open>text\<close> in every other case, that of an empty
  \<open>rest\<close> included. The numeric check comes first: "2024" is read by both and gives
  \<open>integer\<close>. The four examples of the specification hold, the third for every
  implementation whose \<open>Date.parse\<close> rejects the text "x".
\<close>

theorem infer_column_type:
  "(\<forall>rest. rest = filter (\<lambda>v. v \<noteq> JNull \<and> v \<noteq> JUndefined \<and> v \<noteq> JStr []) vals \<longrightarrow>
      (rest = [] \<longrightarrow> inferColumnType legacy vals = ''text'')
    \<and> ((inferColumnType legacy vals = ''integer'')
          = (rest \<noteq> [] \<and> (\<forall>v\<in>set rest. \<not> Number_isNaN v)))
    \<and> ((inferColumnType legacy vals = ''date'')
          = (rest \<noteq> [] \<and> \<not> (\<forall>v\<in>set rest. \<not> Number_isNaN v)
             \<and> (\<forall>v\<in>set rest. \<not> Date_parse_isNaN legacy (String v))))
    \<and> ((inferColumnType legacy vals = ''text'')
          = (rest = [] \<or> (\<not> (\<forall>v\<in>set rest. \<not> Number_isNaN v)
             \<and> \<not> (\<forall>v\<in>set rest. \<not> Date_parse_isNaN legacy (String v))))))
   \<and> inferColumnType legacy [JStr ''1'', JStr ''2'', JStr ''3''] = ''integer''
   \<and> inferColumnType legacy [JStr ''2024-01-01'', JStr ''2024-02-02''] = ''date''
   \<and> (\<not> legacy ''x'' \<longrightarrow> inferColumnType legacy [JStr ''1'', JStr ''x''] = ''text'')
   \<and> inferColumnType legacy [] = ''text''
   \<and> \<not> Number_isNaN (JStr ''2024'') \<and> \<not> Date_parse_isNaN legacy (String (JStr ''2024''))
   \<and> inferColumnType legacy [JStr ''2024''] = ''integer''"
proof (intro conjI allI impI)
  fix rest
  assume r: "rest = filter (\<lambda>v. v \<noteq> JNull \<and> v \<noteq> JUndefined \<and> v \<noteq> JStr []) vals"
  show "inferColumnType legacy vals = ''text''" if "rest = []"
    using that r by (simp add: inferColumnType_def)
  show "(inferColumnType legacy vals = ''integer'')
          = (rest \<noteq> [] \<and> (\<forall>v\<in>set rest. \<not> Number_isNaN v))"
    unfolding inferColumnType_def Let_def list_all_iff r [symmetric] by simp
  show "(inferColumnType legacy vals = ''date'')
          = (rest \<noteq> [] \<and> \<not> (\<forall>v\<in>set rest. \<not> Number_isNaN v)
             \<and> (\<forall>v\<in>set rest. \<not> Date_parse_isNaN legacy (String v)))"
    unfolding inferColumnType_def Let_def list_all_iff r [symmetric] by simp
  show "(inferColumnType legacy vals = ''text'')
          = (rest = [] \<or> (\<not> (\<forall>v\<in>set rest. \<not> Number_isNaN v)
             \<and> \<not> (\<forall>v\<in>set rest. \<not> Date_parse_isNaN legacy (String v))))"
    unfolding inferColumnType_def Let_def list_all_iff r [symmetric] by simp
next
  show "inferColumnType legacy [JStr ''1'', JStr ''2'', JStr ''3''] = ''integer''"
    by code_simp
next
  show "inferColumnType legacy [JStr ''2024-01-01'', JStr ''2024-02-02''] = ''date''"
    by code_simp
next
  assume x: "\<not> legacy ''x''"
  have "Number_isNaN (JStr ''x'')" "\<not> iso_date ''x''"
    by code_simp+
  then show "inferColumnType legacy [JStr ''1'', JStr ''x''] = ''text''"
    using x by (simp add: inferColumnType_def Date_parse_isNaN_def String_def)
next
  show "inferColumnType legacy [] = ''text''"
    by (simp add: inferColumnType_def)
next
  show "\<not> Number_isNaN (JStr ''2024'')"
    by code_simp
next
  show "\<not> Date_parse_isNaN legacy (String (JStr ''2024''))"
    by code_simp
next
  show "inferColumnType legacy [JStr ''2024''] = ''integer''"
    by code_simp
qed

theorem infer_column_type_witness:
  "\<not> (\<lambda>s. s = ''1'') ''x''
   \<and> inferColumnType (\<lambda>s. s = ''1'') [JStr ''1'', JStr ''x''] = ''text''
   \<and> filter (\<lambda>v. v \<noteq> JNull \<and> v \<noteq> JUndefined \<and> v \<noteq> JStr []) [JNull, JStr ''7'', JStr [], JBool True]
       = [JStr ''7'', JBool True]
   \<and> inferColumnType (\<lambda>s. s = ''1'') [JNull, JStr ''7'', JStr [], JBool True] = ''integer''"
proof -
  have n: "\<not> (\<lambda>s. s = ''1'') ''x''"
    by simp
  have f: "filter (\<lambda>v. v \<noteq> JNull \<and> v \<noteq> JUndefined \<and> v \<noteq> JStr []) [JNull, JStr ''7'', JStr [], JBool True]
       = [JStr ''7'', JBool True]"
    by simp
  have v: "\<forall>v\<in>set [JStr ''7'', JBool True]. \<not> Number_isNaN v"
    by code_simp
  have "inferColumnType (\<lambda>s. s = ''1'') [JStr ''1'', JStr ''x''] = ''text''"
    using infer_column_type [of "[]" "\<lambda>s. s = ''1''"] n by blast
  moreover have "inferColumnType (\<lambda>s. s = ''1'') [JNull, JStr ''7'', JStr [], JBool True] = ''integer''"
    using infer_column_type [of "[JNull, JStr ''7'', JStr [], JBool True]" "\<lambda>s. s = ''1''"] f v
    by (metis list.distinct(1))
  ultimately show ?thesis using n f by blast
qed


section \<open>Properties of the response formatter\<close>

lemma get_prop_own: "map_of obj k = Some v \<Longrightarrow> get_prop obj k = Own v"
  by (simp add: get_prop_def)

lemma get_prop_missing:
  "map_of obj k = None \<Longrightarrow> k \<notin> set inherited_names \<Longrightarrow> get_prop obj k = Missing"
  by (simp add: get_prop_def)

lemma map_of_delete_prop:
  "map_of (delete_prop k obj) c = (if c = k then None else map_of obj c)"
  by (induction obj) (auto simp: delete_prop_def)

lemma not_truthy_iff: "(\<not> truthy v) = (v \<in> set falsy_values)"
  by (cases v) (auto simp: truthy_def falsy_values_def)

lemma cell_text_falsy:
  "map_of dt k = Some v \<Longrightarrow> \<not> truthy v \<Longrightarrow> cell_text native \<lparr>r_data = Some dt\<rparr> k = []"
  by (simp add: cell_text_def get_prop_own or_else_def String_def)

lemma cell_text_missing:
  "k \<notin> set inherited_names \<Longrightarrow> r_data r = None \<or> (\<exists>dt. r_data r = Some dt \<and> map_of dt k = None)
     \<Longrightarrow> cell_text native r k = []"
  by (auto simp: cell_text_def get_prop_missing)

lemma cell_text_delete_prop:
  assumes "map_of dt k = Some v" "\<not> truthy v" "k \<notin> set inherited_names"
  shows "cell_text native \<lparr>r_data = Some (delete_prop k dt)\<rparr> c = cell_text native \<lparr>r_data = Some dt\<rparr> c"
proof (cases "c = k")
  case True
  have "cell_text native \<lparr>r_data = Some (delete_prop k dt)\<rparr> k = []"
    using assms(3) by (intro cell_text_missing) (simp_all add: map_of_delete_prop)
  with True show ?thesis using cell_text_falsy [OF assms(1,2)] by simp
next
  case False
  then show ?thesis
    by (simp add: cell_text_def get_prop_def map_of_delete_prop)
qed

text \<open>
  C9, as the claim states it, fails on a result that has no table: the formatter then
  returns the text "Table not found" and prints no table.
\<close>

theorem show_table_without_table:
  "generateChatResponse (\<lambda>n. []) ''show_table'' no_details
      (Some \<lparr>res_table = None, res_rows = Some []\<rparr>) = cross_mark @ '' Table not found''"
  by (simp add: generateChatResponse_def)

text \<open>
  C9, amended: for the action \<open>show_table\<close> with a result that has a table, the formatter
  (\<open>generateChatResponse\<close>) returns the title line, an empty line, the column names joined
  by " | ", a line of "---" for each column joined by "-+-", and then "(no rows)" when
  there are no rows, or else one line for each row, made of its cells joined by " | ". The
  cell of a row without data, or without a property of the column's name, is the empty
  string. With a result that has no table it returns the text "Table not found". For an
  action that has no template (and, for \<open>show_table\<close>, no result) it returns "Done: "
  followed by the message of the details, or by "operation complete" when there is none.
  The names of the members that every object inherits are left out, both as a column of a
  missing cell and as an action.
\<close>

theorem show_table_rendering:
  "(\<forall>cols rows. cols = (case tb_columns tbl of Some cs \<Rightarrow> cs | None \<Rightarrow> [])
       \<and> rows = (case rs of Some xs \<Rightarrow> xs | None \<Rightarrow> []) \<longrightarrow>
      generateChatResponse native ''show_table'' d (Some \<lparr>res_table = Some tbl, res_rows = rs\<rparr>) =
        table_mark @ '' TABLE: '' @ tb_name tbl @ nl @ nl
        @ join '' | '' (map col_name cols) @ nl
        @ join ''-+-'' (map (\<lambda>c. ''---'') cols) @ nl
        @ (if rows = [] then ''(no rows)''
           else join nl (map (\<lambda>r. join '' | '' (map (\<lambda>c. cell_text native r (col_name c)) cols)) rows)))
   \<and> (k \<notin> set inherited_names \<and> (r_data r = None \<or> (\<exists>dt. r_data r = Some dt \<and> map_of dt k = None))
        \<longrightarrow> cell_text native r k = [])
   \<and> generateChatResponse native ''show_table'' d (Some \<lparr>res_table = None, res_rows = rs\<rparr>)
        = cross_mark @ '' Table not found''
   \<and> (a \<notin> set (map fst (responses d)) \<and> a \<notin> set inherited_names \<and> (a = ''show_table'' \<longrightarrow> result = None)
        \<longrightarrow> generateChatResponse native a d result
              = ''Done: '' @ (case d_message d of Some m \<Rightarrow> if m \<noteq> [] then m else ''operation complete''
                              | None \<Rightarrow> ''operation complete''))
   \<and> map fst (responses d) = [''create_table'', ''delete_table'', ''insert_row'', ''update_row'',
        ''delete_row'', ''show_tables'', ''query'']"
proof (intro conjI allI impI)
  fix cols rows
  assume "cols = (case tb_columns tbl of Some cs \<Rightarrow> cs | None \<Rightarrow> [])
       \<and> rows = (case rs of Some xs \<Rightarrow> xs | None \<Rightarrow> [])"
  then show "generateChatResponse native ''show_table'' d (Some \<lparr>res_table = Some tbl, res_rows = rs\<rparr>) =
        table_mark @ '' TABLE: '' @ tb_name tbl @ nl @ nl
        @ join '' | '' (map col_name cols) @ nl
        @ join ''-+-'' (map (\<lambda>c. ''---'') cols) @ nl
        @ (if rows = [] then ''(no rows)''
           else join nl (map (\<lambda>r. join '' | '' (map (\<lambda>c. cell_text native r (col_name c)) cols)) rows))"
    by (simp add: generateChatResponse_def show_table_text_def Let_def)
next
  assume "k \<notin> set inherited_names \<and> (r_data r = None \<or> (\<exists>dt. r_data r = Some dt \<and> map_of dt k = None))"
  then show "cell_text native r k = []"
    using cell_text_missing [of k r native] by blast
next
  show "generateChatResponse native ''show_table'' d (Some \<lparr>res_table = None, res_rows = rs\<rparr>)
        = cross_mark @ '' Table not found''"
    by (simp add: generateChatResponse_def)
next
  assume h: "a \<notin> set (map fst (responses d)) \<and> a \<notin> set inherited_names
      \<and> (a = ''show_table'' \<longrightarrow> result = None)"
  then have n: "map_of (responses d) a = None"
    by (simp add: map_of_eq_None_iff)
  have "(if a = ''show_table'' then result else None) = None"
    using h by simp
  then show "generateChatResponse native a d result
              = ''Done: '' @ (case d_message d of Some m \<Rightarrow> if m \<noteq> [] then m else ''operation complete''
                              | None \<Rightarrow> ''operation complete'')"
    using h n by (simp add: generateChatResponse_def get_prop_def or_text_def)
next
  show "map fst (responses d) = [''create_table'', ''delete_table'', ''insert_row'', ''update_row'',
        ''delete_row'', ''show_tables'', ''query'']"
    by (simp add: responses_def)
qed

theorem show_table_rendering_witness:
  "generateChatResponse (\<lambda>n. []) ''show_table'' no_details
     (Some \<lparr>res_table = Some \<lparr>tb_name = ''student'',
               tb_columns = Some [\<lparr>col_name = ''id'', col_type = ''integer''\<rparr>,
                                  \<lparr>col_name = ''name'', col_type = ''text''\<rparr>]\<rparr>,
            res_rows = Some [\<lparr>r_data = Some [(''id'', JNum 7), (''name'', JStr ''Asha'')]\<rparr>,
                             \<lparr>r_data = Some [(''id'', JNum 8)]\<rparr>]\<rparr>)
     = table_mark @ '' TABLE: student'' @ nl @ nl @ ''id | name'' @ nl @ ''----+----'' @ nl
       @ ''7 | Asha'' @ nl @ ''8 | ''
   \<and> ''name'' \<notin> set inherited_names
   \<and> cell_text (\<lambda>n. []) \<lparr>r_data = Some [(''id'', JNum 8)]\<rparr> ''name'' = []
   \<and> ''create_database'' \<notin> set (map fst (responses no_details))
   \<and> generateChatResponse (\<lambda>n. []) ''create_database'' no_details None = ''Done: operation complete''"
proof -
  have n: "''name'' \<notin> set inherited_names" "''create_database'' \<notin> set inherited_names"
    "''create_database'' \<notin> set (map fst (responses no_details))"
    by (simp_all add: inherited_names_def responses_def)
  note t = show_table_rendering [of "\<lparr>tb_name = ''student'',
               tb_columns = Some [\<lparr>col_name = ''id'', col_type = ''integer''\<rparr>,
                                  \<lparr>col_name = ''name'', col_type = ''text''\<rparr>]\<rparr>"
      "Some [\<lparr>r_data = Some [(''id'', JNum 7), (''name'', JStr ''Asha'')]\<rparr>,
             \<lparr>r_data = Some [(''id'', JNum 8)]\<rparr>]"
      "\<lambda>n. []" no_details "''name''" "\<lparr>r_data = Some [(''id'', JNum 8)]\<rparr>"
      "''create_database''" None]
  have c: "cell_text (\<lambda>n. []) \<lparr>r_data = Some [(''id'', JNum 8)]\<rparr> ''name'' = []"
    using t n by auto
  have "generateChatResponse (\<lambda>n. []) ''show_table'' no_details
     (Some \<lparr>res_table = Some \<lparr>tb_name = ''student'',
               tb_columns = Some [\<lparr>col_name = ''id'', col_type = ''integer''\<rparr>,
                                  \<lparr>col_name = ''name'', col_type = ''text''\<rparr>]\<rparr>,
            res_rows = Some [\<lparr>r_data = Some [(''id'', JNum 7), (''name'', JStr ''Asha'')]\<rparr>,
                             \<lparr>r_data = Some [(''id'', JNum 8)]\<rparr>]\<rparr>)
     = table_mark @ '' TABLE: student'' @ nl @ nl @ ''id | name'' @ nl @ ''----+----'' @ nl
       @ ''7 | Asha'' @ nl @ ''8 | ''"
    by code_simp
  moreover have "generateChatResponse (\<lambda>n. []) ''create_database'' no_details None
      = ''Done: '' @ (case d_message no_details of
                        Some m \<Rightarrow> if m \<noteq> [] then m else ''operation complete''
                      | None \<Rightarrow> ''operation complete'')"
    using t n by blast
  then have "generateChatResponse (\<lambda>n. []) ''create_database'' no_details None
      = ''Done: operation complete''"
    by (simp add: no_details_def)
  ultimately show ?thesis using n c by simp
qed

text \<open>
  C10, as the claim states it, fails: for the column named \<open>constructor\<close> a stored 0 is
  printed as the empty string and an absent cell as the text of the function that every
  object inherits under that name. The interpreter makes such a column of "create table t
  with id, constructor".
\<close>

theorem zero_differs_from_missing:
  "cell_text native_node \<lparr>r_data = Some [(''id'', JNum 5), (''constructor'', JNum 0)]\<rparr> ''constructor'' = []
   \<and> cell_text native_node \<lparr>r_data = Some [(''id'', JNum 5)]\<rparr> ''constructor''
       = ''function Object() { [native code] }''
   \<and> generateChatResponse native_node ''show_table'' no_details
        (Some \<lparr>res_table = Some \<lparr>tb_name = ''t'',
                  tb_columns = Some [\<lparr>col_name = ''id'', col_type = ''integer''\<rparr>,
                                     \<lparr>col_name = ''constructor'', col_type = ''text''\<rparr>]\<rparr>,
               res_rows = Some [\<lparr>r_data = Some [(''id'', JNum 5), (''constructor'', JNum 0)]\<rparr>]\<rparr>)
       = table_mark @ '' TABLE: t'' @ nl @ nl @ ''id | constructor'' @ nl @ ''----+----'' @ nl
         @ ''5 | ''
   \<and> generateChatResponse native_node ''show_table'' no_details
        (Some \<lparr>res_table = Some \<lparr>tb_name = ''t'',
                  tb_columns = Some [\<lparr>col_name = ''id'', col_type = ''integer''\<rparr>,
                                     \<lparr>col_name = ''constructor'', col_type = ''text''\<rparr>]\<rparr>,
               res_rows = Some [\<lparr>r_data = Some [(''id'', JNum 5)]\<rparr>]\<rparr>)
       = table_mark @ '' TABLE: t'' @ nl @ nl @ ''id | constructor'' @ nl @ ''----+----'' @ nl
         @ ''5 | function Object() { [native code] }''
   \<and> d_columns (details (processNaturalLanguageCommand ''create table t with id, constructor''))
       = Some [\<lparr>col_name = ''id'', col_type = ''integer''\<rparr>,
               \<lparr>col_name = ''constructor'', col_type = ''text''\<rparr>]"
  by code_simp

text \<open>
  C10, amended: in the table printed for \<open>show_table\<close>, a cell whose stored value is not
  truthy (\<open>undefined\<close>, \<open>null\<close>, \<open>false\<close>, the number 0, \<open>NaN\<close> or the empty string) is
  the empty string; and where the column's name is not the name of a member that every
  object inherits, so is the cell of a row without that property, and the whole printed
  table is the same whether a row stores such a value or has no value at all for the
  column.
\<close>

theorem falsy_cell_as_missing:
  "(\<not> truthy v) = (v \<in> set [JUndefined, JNull, JBool False, JNum 0, JNaN, JStr []])
   \<and> (map_of dt k = Some v \<and> \<not> truthy v \<longrightarrow>
        cell_text native \<lparr>r_data = Some dt\<rparr> k = []
      \<and> (k \<notin> set inherited_names \<longrightarrow>
           cell_text native \<lparr>r_data = Some (delete_prop k dt)\<rparr> k = []
         \<and> map_of (delete_prop k dt) k = None
         \<and> generateChatResponse native ''show_table'' d
              (Some \<lparr>res_table = Some tbl, res_rows = Some (xs @ \<lparr>r_data = Some dt\<rparr> # ys)\<rparr>)
           = generateChatResponse native ''show_table'' d
              (Some \<lparr>res_table = Some tbl,
                     res_rows = Some (xs @ \<lparr>r_data = Some (delete_prop k dt)\<rparr> # ys)\<rparr>)))"
proof (intro conjI impI)
  show "(\<not> truthy v) = (v \<in> set [JUndefined, JNull, JBool False, JNum 0, JNaN, JStr []])"
    using not_truthy_iff [of v] by (simp add: falsy_values_def)
next
  assume "map_of dt k = Some v \<and> \<not> truthy v"
  then show "cell_text native \<lparr>r_data = Some dt\<rparr> k = []"
    by (simp add: cell_text_falsy)
next
  assume "map_of dt k = Some v \<and> \<not> truthy v" "k \<notin> set inherited_names"
  then show "cell_text native \<lparr>r_data = Some (delete_prop k dt)\<rparr> k = []"
    using cell_text_missing [of k "\<lparr>r_data = Some (delete_prop k dt)\<rparr>" native]
    by (simp add: map_of_delete_prop)
next
  show "map_of (delete_prop k dt) k = None"
    by (simp add: map_of_delete_prop)
next
  assume h: "map_of dt k = Some v \<and> \<not> truthy v" "k \<notin> set inherited_names"
  have "cell_text native \<lparr>r_data = Some (delete_prop k dt)\<rparr> c = cell_text native \<lparr>r_data = Some dt\<rparr> c"
    for c
    using h cell_text_delete_prop [of dt k v native c] by blast
  then show "generateChatResponse native ''show_table'' d
              (Some \<lparr>res_table = Some tbl, res_rows = Some (xs @ \<lparr>r_data = Some dt\<rparr> # ys)\<rparr>)
           = generateChatResponse native ''show_table'' d
              (Some \<lparr>res_table = Some tbl,
                     res_rows = Some (xs @ \<lparr>r_data = Some (delete_prop k dt)\<rparr> # ys)\<rparr>)"
    by (simp add: generateChatResponse_def show_table_text_def Let_def)
qed

theorem falsy_cell_as_missing_witness:
  "map_of [(''id'', JNum 5), (''qty'', JNum 0)] ''qty'' = Some (JNum 0) \<and> \<not> truthy (JNum 0)
   \<and> ''qty'' \<notin> set inherited_names
   \<and> delete_prop ''qty'' [(''id'', JNum 5), (''qty'', JNum 0)] = [(''id'', JNum 5)]
   \<and> cell_text (\<lambda>n. []) \<lparr>r_data = Some [(''id'', JNum 5), (''qty'', JNum 0)]\<rparr> ''qty'' = []
   \<and> cell_text (\<lambda>n. []) \<lparr>r_data = Some [(''id'', JNum 5)]\<rparr> ''qty'' = []
   \<and> generateChatResponse (\<lambda>n. []) ''show_table'' no_details
        (Some \<lparr>res_table = Some \<lparr>tb_name = ''stock'',
                  tb_columns = Some [\<lparr>col_name = ''id'', col_type = ''integer''\<rparr>,
                                     \<lparr>col_name = ''qty'', col_type = ''integer''\<rparr>]\<rparr>,
               res_rows = Some [\<lparr>r_data = Some [(''id'', JNum 5), (''qty'', JNum 0)]\<rparr>]\<rparr>)
      = generateChatResponse (\<lambda>n. []) ''show_table'' no_details
        (Some \<lparr>res_table = Some \<lparr>tb_name = ''stock'',
                  tb_columns = Some [\<lparr>col_name = ''id'', col_type = ''integer''\<rparr>,
                                     \<lparr>col_name = ''qty'', col_type = ''integer''\<rparr>]\<rparr>,
               res_rows = Some [\<lparr>r_data = Some [(''id'', JNum 5)]\<rparr>]\<rparr>)"
proof -
  have a: "map_of [(''id'', JNum 5), (''qty'', JNum 0)] ''qty'' = Some (JNum 0)" "\<not> truthy (JNum 0)"
    "''qty'' \<notin> set inherited_names"
    "delete_prop ''qty'' [(''id'', JNum 5), (''qty'', JNum 0)] = [(''id'', JNum 5)]"
    by (simp_all add: truthy_def inherited_names_def delete_prop_def)
  show ?thesis
    using a falsy_cell_as_missing [of "JNum 0" "[(''id'', JNum 5), (''qty'', JNum 0)]" "''qty''"
      "\<lambda>n. []" no_details
      "\<lparr>tb_name = ''stock'', tb_columns = Some [\<lparr>col_name = ''id'', col_type = ''integer''\<rparr>,
                                     \<lparr>col_name = ''qty'', col_type = ''integer''\<rparr>]\<rparr>" "[]" "[]"]
    by simp
qed


section \<open>Properties of the extractors\<close>

subsection \<open>Unstructured text\<close>

lemma createTableFromData_block:
  "2 \<le> length b \<Longrightarrow> createTableFromData pf b i = Some (block_table pf (Suc i, b))"
  by (simp add: createTableFromData_def block_table_def Let_def mapi_def zip_map1 case_prod_unfold
        foldl_map)

lemma runs_not_Nil: "runs cur ls \<noteq> []"
  by (induction ls arbitrary: cur) auto

lemma scan_runs:
  assumes "\<not> inTable st \<longrightarrow> tableData st = []"
    and "list_all (\<lambda>b. length b \<noteq> 1) (butlast (runs (tableData st) ls))"
  shows "finish pf (foldl (scan_line pf) st ls)
     = found st @ map (block_table pf)
         (enumerate (Suc (length (found st))) (filter (\<lambda>b. 2 \<le> length b) (runs (tableData st) ls)))"
  using assms
proof (induction ls arbitrary: st)
  case Nil
  then show ?case
    by (auto simp: finish_def push_table_def createTableFromData_block)
next
  case (Cons l ls)
  show ?case
  proof (cases "is_candidate l")
    case True
    let ?st = "st\<lparr>inTable := True, tableData := tableData st @ [line_cells l]\<rparr>"
    have s: "scan_line pf st l = ?st"
      using True Cons.prems(1) by (auto simp: scan_line_def is_candidate_def Let_def)
    have "finish pf (foldl (scan_line pf) ?st ls)
       = found ?st @ map (block_table pf)
         (enumerate (Suc (length (found ?st))) (filter (\<lambda>b. 2 \<le> length b) (runs (tableData ?st) ls)))"
      using True Cons.prems(2) by (intro Cons.IH) simp_all
    then show ?thesis using True s by simp
  next
    case False
    have r: "length (tableData st) \<noteq> 1" "list_all (\<lambda>b. length b \<noteq> 1) (butlast (runs [] ls))"
      using False Cons.prems(2) by (simp_all add: runs_not_Nil)
    show ?thesis
    proof (cases "inTable st \<and> 2 \<le> length (tableData st)")
      case True
      let ?t = "block_table pf (Suc (length (found st)), tableData st)"
      let ?st = "st\<lparr>found := found st @ [?t], tableData := [], inTable := False\<rparr>"
      have s: "scan_line pf st l = ?st"
        using True False
        by (simp add: scan_line_def is_candidate_def Let_def createTableFromData_block push_table_def)
      have "finish pf (foldl (scan_line pf) ?st ls)
         = found ?st @ map (block_table pf)
           (enumerate (Suc (length (found ?st))) (filter (\<lambda>b. 2 \<le> length b) (runs (tableData ?st) ls)))"
        using r by (intro Cons.IH) simp_all
      then show ?thesis using True False s by simp
    next
      case F2: False
      have s: "scan_line pf st l = st"
        using F2 False by (auto simp: scan_line_def is_candidate_def Let_def)
      have e: "tableData st = []"
      proof (cases "inTable st")
        case True
        then have "length (tableData st) < 2" using F2 by simp
        with r(1) show ?thesis by (cases "tableData st") auto
      next
        case False
        then show ?thesis using Cons.prems(1) by simp
      qed
      have "finish pf (foldl (scan_line pf) st ls)
         = found st @ map (block_table pf)
           (enumerate (Suc (length (found st))) (filter (\<lambda>b. 2 \<le> length b) (runs (tableData st) ls)))"
        using r e Cons.prems(1) by (intro Cons.IH) simp_all
      then show ?thesis using False s e by simp
    qed
  qed
qed

lemma extract_runs:
  "list_all (\<lambda>b. length b \<noteq> 1) (butlast (runs [] (text_lines text)))
   \<Longrightarrow> extractTablesFromText pf text = claimed_tables pf (text_lines text)"
  using scan_runs [of "\<lparr>found = [], tableData = [], inTable = False\<rparr>" "text_lines text" pf]
  by (simp add: extractTablesFromText_def finish_def claimed_tables_def Let_def)

lemma enumerate_nth:
  "i < length xs \<Longrightarrow> enumerate n xs ! i = (n + i, xs ! i)"
  by (simp add: nth_enumerate_eq)

text \<open>
  C6, as the claim states it, fails: a blank line is a line that is no row candidate, yet
  it ends no block, because the extractor drops the blank lines before it reads the rows.
  Of two blocks of two rows with a blank line between them the claim makes two tables; the
  extractor makes one table of them, with three rows.
\<close>

theorem blank_line_joins_blocks:
  "split_on CHR 0x0A (''Name  Age'' @ nl @ ''Asha  21'' @ nl @ nl @ ''City  Zip'' @ nl @ ''Pune  411'')
     = [''Name  Age'', ''Asha  21'', [], ''City  Zip'', ''Pune  411'']
   \<and> \<not> is_candidate []
   \<and> map summary (claimed_tables pf0
        (split_on CHR 0x0A (''Name  Age'' @ nl @ ''Asha  21'' @ nl @ nl @ ''City  Zip'' @ nl @ ''Pune  411'')))
       = [(''pdf_table_1'', [''name'', ''age''], 1), (''pdf_table_2'', [''city'', ''zip''], 1)]
   \<and> map summary (extractTablesFromText pf0
        (''Name  Age'' @ nl @ ''Asha  21'' @ nl @ nl @ ''City  Zip'' @ nl @ ''Pune  411''))
       = [(''pdf_table_1'', [''name'', ''age''], 3)]"
  by code_simp

text \<open>
  C6, amended: the extractor (\<open>extractTablesFromText\<close>) reads the lines of the text that
  are not blank, trimmed (\<open>text_lines\<close>). Among these, consecutive row candidates (lines
  that split, on runs of two or more white-space characters or a tab, into two non-empty
  cells or more) form a block, which a line that is no candidate ends, and the end of the
  input. Where no block of exactly one row is ended by a line that is no candidate, the
  extractor returns one table for each block of two rows or more, in the order of the
  blocks, and nothing for a smaller block: table number \<open>i\<close> (from 1) is named
  \<open>pdf_table_i\<close>, its columns are named after the first row of its block and its rows are
  the rows after the first. Three aligned lines give one table with two rows, one such
  line alone gives no table.
\<close>

theorem text_blocks_become_tables:
  "(list_all (\<lambda>b. length b \<noteq> 1) (butlast (runs [] (text_lines text))) \<longrightarrow>
      extractTablesFromText pf text = claimed_tables pf (text_lines text)
    \<and> (\<forall>kept. kept = filter (\<lambda>b. 2 \<le> length b) (runs [] (text_lines text)) \<longrightarrow>
        length (extractTablesFromText pf text) = length kept
      \<and> (\<forall>i<length kept.
            t_name (extractTablesFromText pf text ! i) = ''pdf_table_'' @ show_nat (i + 1)
          \<and> map col_name (t_columns (extractTablesFromText pf text ! i))
              = mapi (\<lambda>h idx. name_or_col (text_header h) idx) (hd (kept ! i))
          \<and> length (t_rows (extractTablesFromText pf text ! i)) = length (kept ! i) - 1)))
   \<and> is_candidate line = (2 \<le> length (filter (\<lambda>c. c \<noteq> []) (map trim (split_gaps [] line))))
   \<and> text_lines (''Name   Age'' @ nl @ nl @ ''  Asha   21 '' @ nl @ ''Ravi'')
       = [''Name   Age'', ''Asha   21'', ''Ravi'']
   \<and> map (\<lambda>t. (t_name t, map col_name (t_columns t), t_rows t))
        (extractTablesFromText pf (''Name   Age'' @ nl @ ''Asha   21'' @ nl @ ''Ravi   x''))
       = [(''pdf_table_1'', [''name'', ''age''],
           [[(''name'', JStr ''Asha''), (''age'', JStr ''21'')],
            [(''name'', JStr ''Ravi''), (''age'', JStr ''x'')]])]
   \<and> extractTablesFromText pf ''Name   Age'' = []"
proof (intro conjI allI impI)
  assume h: "list_all (\<lambda>b. length b \<noteq> 1) (butlast (runs [] (text_lines text)))"
  show c: "extractTablesFromText pf text = claimed_tables pf (text_lines text)"
    using h by (rule extract_runs)
  fix kept
  assume k: "kept = filter (\<lambda>b. 2 \<le> length b) (runs [] (text_lines text))"
  have e: "extractTablesFromText pf text = map (block_table pf) (enumerate 1 kept)"
    using c k by (simp add: claimed_tables_def)
  show "length (extractTablesFromText pf text) = length kept"
    using e by simp
  fix i
  assume i: "i < length kept"
  have t: "extractTablesFromText pf text ! i = block_table pf (Suc i, kept ! i)"
    using e i by (simp add: enumerate_nth)
  show "t_name (extractTablesFromText pf text ! i) = ''pdf_table_'' @ show_nat (i + 1)"
    by (simp only: t) (simp add: block_table_def)
  show "map col_name (t_columns (extractTablesFromText pf text ! i))
          = mapi (\<lambda>h idx. name_or_col (text_header h) idx) (hd (kept ! i))"
    by (simp only: t) (simp add: block_table_def mapi_def case_prod_unfold)
  show "length (t_rows (extractTablesFromText pf text ! i)) = length (kept ! i) - 1"
    by (simp only: t) (simp add: block_table_def)
next
  show "is_candidate line = (2 \<le> length (filter (\<lambda>c. c \<noteq> []) (map trim (split_gaps [] line))))"
    by (simp add: is_candidate_def line_cells_def)
next
  show "text_lines (''Name   Age'' @ nl @ nl @ ''  Asha   21 '' @ nl @ ''Ravi'')
       = [''Name   Age'', ''Asha   21'', ''Ravi'']"
    by code_simp
next
  show "map (\<lambda>t. (t_name t, map col_name (t_columns t), t_rows t))
        (extractTablesFromText pf (''Name   Age'' @ nl @ ''Asha   21'' @ nl @ ''Ravi   x''))
       = [(''pdf_table_1'', [''name'', ''age''],
           [[(''name'', JStr ''Asha''), (''age'', JStr ''21'')],
            [(''name'', JStr ''Ravi''), (''age'', JStr ''x'')]])]"
    by code_simp
next
  show "extractTablesFromText pf ''Name   Age'' = []"
    by code_simp
qed

theorem text_blocks_become_tables_witness:
  "list_all (\<lambda>b. length b \<noteq> 1)
      (butlast (runs [] (text_lines
         (''Item  Qty'' @ nl @ ''nut  4'' @ nl @ nl @ ''bolt  6'' @ nl @ ''end'' @ nl @ ''A  B'' @ nl @ ''c  d''))))
   \<and> runs [] (text_lines
         (''Item  Qty'' @ nl @ ''nut  4'' @ nl @ nl @ ''bolt  6'' @ nl @ ''end'' @ nl @ ''A  B'' @ nl @ ''c  d''))
     = [[[''Item'', ''Qty''], [''nut'', ''4''], [''bolt'', ''6'']], [[''A'', ''B''], [''c'', ''d'']]]
   \<and> map summary (extractTablesFromText pf0
        (''Item  Qty'' @ nl @ ''nut  4'' @ nl @ nl @ ''bolt  6'' @ nl @ ''end'' @ nl @ ''A  B'' @ nl @ ''c  d''))
     = map summary (claimed_tables pf0 (text_lines
        (''Item  Qty'' @ nl @ ''nut  4'' @ nl @ nl @ ''bolt  6'' @ nl @ ''end'' @ nl @ ''A  B'' @ nl @ ''c  d'')))
   \<and> map summary (extractTablesFromText pf0
        (''Item  Qty'' @ nl @ ''nut  4'' @ nl @ nl @ ''bolt  6'' @ nl @ ''end'' @ nl @ ''A  B'' @ nl @ ''c  d''))
     = [(''pdf_table_1'', [''item'', ''qty''], 2), (''pdf_table_2'', [''a'', ''b''], 1)]"
proof -
  let ?text = "''Item  Qty'' @ nl @ ''nut  4'' @ nl @ nl @ ''bolt  6'' @ nl @ ''end'' @ nl @ ''A  B'' @ nl @ ''c  d''"
  have r: "runs [] (text_lines ?text)
     = [[[''Item'', ''Qty''], [''nut'', ''4''], [''bolt'', ''6'']], [[''A'', ''B''], [''c'', ''d'']]]"
    by code_simp
  have h: "list_all (\<lambda>b. length b \<noteq> 1) (butlast (runs [] (text_lines ?text)))"
    by (simp only: r) simp
  have "list_all (\<lambda>b. length b \<noteq> 1) (butlast (runs [] (text_lines ?text))) \<longrightarrow>
      extractTablesFromText pf0 ?text = claimed_tables pf0 (text_lines ?text)
    \<and> (\<forall>kept. kept = filter (\<lambda>b. 2 \<le> length b) (runs [] (text_lines ?text)) \<longrightarrow>
        length (extractTablesFromText pf0 ?text) = length kept
      \<and> (\<forall>i<length kept.
            t_name (extractTablesFromText pf0 ?text ! i) = ''pdf_table_'' @ show_nat (i + 1)
          \<and> map col_name (t_columns (extractTablesFromText pf0 ?text ! i))
              = mapi (\<lambda>h idx. name_or_col (text_header h) idx) (hd (kept ! i))
          \<and> length (t_rows (extractTablesFromText pf0 ?text ! i)) = length (kept ! i) - 1))"
    by (rule text_blocks_become_tables [of ?text pf0, THEN conjunct1])
  from this [THEN mp, OF h, THEN conjunct1]
  have c: "extractTablesFromText pf0 ?text = claimed_tables pf0 (text_lines ?text)" .
  have s: "map summary (claimed_tables pf0 (text_lines ?text))
     = [(''pdf_table_1'', [''item'', ''qty''], 2), (''pdf_table_2'', [''a'', ''b''], 1)]"
    by code_simp
  show ?thesis
    by (intro conjI) (rule h, rule r, simp only: c, simp only: c s)
qed

text \<open>
  A block of one row that a line without cells ends is outside the statement above. There
  the extractor keeps the row, and it becomes the first row of the block that follows.
\<close>

lemma lone_row_is_kept:
  "map summary (extractTablesFromText pf0 (''a  b'' @ nl @ ''note'' @ nl @ ''c  d'' @ nl @ ''e  f''))
     = [(''pdf_table_1'', [''a'', ''b''], 2)]
   \<and> map summary (claimed_tables pf0 (text_lines (''a  b'' @ nl @ ''note'' @ nl @ ''c  d'' @ nl @ ''e  f'')))
     = [(''pdf_table_1'', [''c'', ''d''], 1)]"
  by code_simp

subsection \<open>Column names\<close>

lemma show_nat_digits: "list_all is_digit (show_nat n)"
proof (induction n rule: show_nat.induct)
  case (1 n)
  have d: "is_digit (char_of (48 + m))" if "m < 10" for m :: nat
    using that by (simp add: is_digit_def)
  show ?case
  proof (cases "n < 10")
    case True
    then show ?thesis by (subst show_nat.simps) (simp add: d)
  next
    case False
    then show ?thesis using 1 by (subst show_nat.simps) (simp add: d)
  qed
qed

lemma name_or_col_ident: "list_all ident_char (name_or_col (text_header h) idx)"
proof -
  have "list_all ident_char (text_header h)"
    by (simp add: text_header_def keep_ident_def ident_char_def list_all_iff)
  moreover have "list_all ident_char (''col_'' @ show_nat idx)"
    using show_nat_digits [of idx]
    by (auto simp: ident_char_def list_all_iff is_lower_def)
  ultimately show ?thesis by (simp add: name_or_col_def)
qed

lemma createTableFromData_names:
  assumes "createTableFromData pf d i = Some t" and "c \<in> set (t_columns t)"
  shows "list_all ident_char (col_name c)"
proof -
  have "2 \<le> length d"
    using assms(1) by (auto simp: createTableFromData_def split: if_splits)
  then have "t = block_table pf (Suc i, d)"
    using assms(1) by (simp add: createTableFromData_block)
  then show ?thesis
    using assms(2) name_or_col_ident by (auto simp: block_table_def mapi_def)
qed

lemma push_table_names:
  assumes "\<forall>t\<in>set ts. \<forall>c\<in>set (t_columns t). list_all ident_char (col_name c)"
  shows "\<forall>t\<in>set (push_table (createTableFromData pf d i) ts).
           \<forall>c\<in>set (t_columns t). list_all ident_char (col_name c)"
  using assms createTableFromData_names [of pf d i]
  by (auto simp: push_table_def split: option.splits)

lemma scan_line_names:
  assumes "\<forall>t\<in>set (found st). \<forall>c\<in>set (t_columns t). list_all ident_char (col_name c)"
  shows "\<forall>t\<in>set (found (scan_line pf st l)). \<forall>c\<in>set (t_columns t). list_all ident_char (col_name c)"
  using push_table_names [OF assms, of pf "tableData st" "length (found st)"] assms
  by (simp add: scan_line_def Let_def)

lemma foldl_scan_names:
  assumes "\<forall>t\<in>set (found st). \<forall>c\<in>set (t_columns t). list_all ident_char (col_name c)"
  shows "\<forall>t\<in>set (found (foldl (scan_line pf) st ls)).
           \<forall>c\<in>set (t_columns t). list_all ident_char (col_name c)"
  using assms
proof (induction ls arbitrary: st)
  case Nil
  then show ?case by simp
next
  case (Cons l ls)
  show ?case
    using Cons.IH [OF scan_line_names [OF Cons.prems]] by simp
qed

text \<open>Every column name that the text extractor gives is made of lower-case letters,
  digits and underscores.\<close>

lemma text_column_names_normalised:
  "\<forall>name\<in>set (column_names (Tables (extractTablesFromText pf text))). list_all ident_char name"
proof -
  let ?st = "foldl (scan_line pf) \<lparr>found = [], tableData = [], inTable = False\<rparr> (text_lines text)"
  have f: "\<forall>t\<in>set (found ?st). \<forall>c\<in>set (t_columns t). list_all ident_char (col_name c)"
    by (rule foldl_scan_names) simp
  have "\<forall>t\<in>set (extractTablesFromText pf text). \<forall>c\<in>set (t_columns t). list_all ident_char (col_name c)"
    using f push_table_names [OF f, of pf "tableData ?st" "length (found ?st)"]
    by (simp add: extractTablesFromText_def Let_def)
  then show ?thesis
    by (auto simp: column_names_def)
qed

text \<open>
  C7: every column name that an extractor gives is lower-cased, has its white space
  replaced by underscores and its other characters that are no letter and no digit
  removed. This holds for the text extractor (the lemma above) and fails for spreadsheets
  and for comma-separated text: the header "Price ($)" becomes the column name
  \<open>price_($)\<close> there, with its brackets and its dollar sign, while the text extractor
  makes \<open>price_\<close> of the same header.
\<close>

theorem column_name_keeps_symbols:
  "column_names (tables (extractFromCSV pf (''Price ($),Qty'' @ nl @ ''1,2''))) = [''price_($)'', ''qty'']
   \<and> column_names (tables (extractDataFromFile pf2 buffer ''.xlsx'' mimetype)) = [''price_($)'', ''qty'']
   \<and> \<not> list_all ident_char ''price_($)''
   \<and> column_names (Tables (extractTablesFromText pf (''Price ($)   Qty'' @ nl @ ''1   2'')))
       = [''price_'', ''qty'']"
proof (intro conjI)
  show "column_names (tables (extractFromCSV pf (''Price ($),Qty'' @ nl @ ''1,2'')))
      = [''price_($)'', ''qty'']"
    by code_simp
  show "column_names (tables (extractDataFromFile pf2 buffer ''.xlsx'' mimetype)) = [''price_($)'', ''qty'']"
    by code_simp
  show "\<not> list_all ident_char ''price_($)''"
    by code_simp
  show "column_names (Tables (extractTablesFromText pf (''Price ($)   Qty'' @ nl @ ''1   2'')))
       = [''price_'', ''qty'']"
    by code_simp
qed

subsection \<open>Images\<close>

lemma close_k_simps:
  "close_k p0 inp0 p [] cp = None"
  "close_k p0 inp0 p (c # cs) cp =
     (if c = CHR ''}'' then Some \<lparr>index = p0, matched = take (Suc p - p0) inp0, groups = cp\<rparr> else None)"
  by (simp_all add: close_k_def)

lemma greedy_no_close:
  "CHR ''}'' \<notin> set s \<Longrightarrow> greedy (\<lambda>c. True) (close_k p0 inp0) q s cp = None"
  by (induction s arbitrary: q) (auto simp: close_k_simps)

lemma greedy_last_close:
  "CHR ''}'' \<in> set s \<Longrightarrow>
     greedy (\<lambda>c. True) (close_k p0 inp0) q s cp
       = Some \<lparr>index = p0,
               matched = take (q + length (rev (dropWhile (\<lambda>c. c \<noteq> CHR ''}'') (rev s))) - p0) inp0,
               groups = cp\<rparr>"
proof (induction s arbitrary: q)
  case Nil
  then show ?case by simp
next
  case (Cons c cs)
  show ?case
  proof (cases "CHR ''}'' \<in> set cs")
    case True
    then have d: "dropWhile (\<lambda>c. c \<noteq> CHR ''}'') (rev cs) \<noteq> []"
      by auto
    show ?thesis
      using Cons.IH [OF True, of "Suc q"] d by simp
  next
    case False
    then have c: "c = CHR ''}''" using Cons.prems by simp
    have d: "dropWhile (\<lambda>c. c \<noteq> CHR ''}'') (rev cs @ [c]) = [c]"
      using False c by (subst dropWhile_append2) auto
    show ?thesis
      using False c by (simp add: greedy_no_close close_k_simps d [unfolded c])
  qed
qed

lemma match_here_json:
  "match_here json_re p inp =
     (case inp of
        [] \<Rightarrow> None
      | c # cs \<Rightarrow> if c = CHR ''{'' then greedy (\<lambda>c. True) (close_k p (c # cs)) (Suc p) cs [] else None)"
  by (cases inp) (simp_all add: match_here_def json_re_def seqs_def close_k_def rx_match_Seq_fun)

lemma search_json_no_close:
  "CHR ''}'' \<notin> set s \<Longrightarrow> search json_re p s = None"
proof (induction s arbitrary: p)
  case Nil
  show ?case by (simp add: match_here_json)
next
  case (Cons c cs)
  then show ?case by (simp add: match_here_json greedy_no_close)
qed

lemma take_prefix_rev_dropWhile:
  "take (length (rev (dropWhile P (rev s)))) s = rev (dropWhile P (rev s))"
proof -
  have "s = rev (dropWhile P (rev s)) @ rev (takeWhile P (rev s))"
    by (metis rev_append rev_rev_ident takeWhile_dropWhile_id)
  then show ?thesis
    by (metis append_eq_conv_conj)
qed

lemma search_json_span:
  "map_option matched (search json_re p s) = brace_span s"
proof (induction s arbitrary: p)
  case Nil
  show ?case by (simp add: match_here_json brace_span_def)
next
  case (Cons c cs)
  show ?case
  proof (cases "c = CHR ''{''")
    case False
    then show ?thesis
      using Cons [of "Suc p"] by (simp add: match_here_json brace_span_def)
  next
    case True
    show ?thesis
    proof (cases "CHR ''}'' \<in> set cs")
      case False
      then show ?thesis
        using True by (simp add: match_here_json greedy_no_close search_json_no_close brace_span_def)
    next
      case T2: True
      have "take (Suc (length (rev (dropWhile (\<lambda>c. c \<noteq> CHR ''}'') (rev cs))))) (c # cs)
          = c # rev (dropWhile (\<lambda>c. c \<noteq> CHR ''}'') (rev cs))"
        using take_prefix_rev_dropWhile [of "\<lambda>c. c \<noteq> CHR ''}''" cs] by simp
      then show ?thesis
        using True T2 by (simp add: match_here_json greedy_last_close brace_span_def)
    qed
  qed
qed

lemma json_match_span: "map_option matched (match r json_re) = brace_span r"
  by (simp add: match_def search_json_span)


lemma brace_span_prose:
  assumes "CHR ''{'' \<notin> set pre" "CHR ''}'' \<notin> set post"
  shows "brace_span (pre @ ''{'' @ mid @ ''}'' @ post) = Some (''{'' @ mid @ ''}'')"
proof -
  have a: "dropWhile (\<lambda>c. c \<noteq> CHR ''{'') (pre @ ''{'' @ mid @ ''}'' @ post) = ''{'' @ mid @ ''}'' @ post"
    using assms(1) by (subst dropWhile_append2) auto
  have b: "dropWhile (\<lambda>c. c \<noteq> CHR ''}'') (rev post @ ''}'' @ rev mid) = ''}'' @ rev mid"
    using assms(2) by (subst dropWhile_append2) auto
  show ?thesis
    by (simp add: brace_span_def a [simplified] b [simplified])
qed


text \<open>
  C8, as the claim states it, fails: in the example the first balanced object of the answer
  is well-formed JSON with a table, but the extractor takes the text up to the last closing
  brace of the answer, which does not parse, and returns no table.
\<close>

theorem image_span_not_balanced:
  "first_balanced reply0 = Some object0
   \<and> JSON_parse pf1 object0
       = Inr (JObject [(''tables'', JArray [JObject [(''name'', JPrim (JStr ''t''))]])])
   \<and> map_option matched (match reply0 json_re) = Some (object0 @ '' {end of answer}'')
   \<and> snd (extractFromImage pf1 [] ''image/png'') = no_tables"
  by code_simp

text \<open>
  C8, amended: without a key (none, or an empty one) the image extractor
  (\<open>extractFromImage\<close>) returns no table and the text of the reason, and makes no request
  to the model. With a key it makes one request. It then takes the text from the first
  opening brace of the answer to the last closing brace after it, which is the JSON object
  of the answer when the prose before it has no opening brace and the prose after it no
  closing brace; it parses that text and returns its member \<open>tables\<close>, or no table when
  the member is missing or not truthy, with the text "Extracted from image using AI". It
  returns \<open>{tables: []}\<close> when the request fails, when reading the answer fails, when the
  answer has no such span of braces, and when the span does not parse.
\<close>

theorem image_extraction:
  "(GEMINI_API_KEY pf = None \<or> GEMINI_API_KEY pf = Some [] \<longrightarrow>
      extractFromImage pf buffer mimetype
        = ([], \<lparr>tables = Tables [],
                 textContent = Some ''Gemini API key not configured for image processing''\<rparr>))
   \<and> (GEMINI_API_KEY pf = Some key \<and> key \<noteq> [] \<longrightarrow>
        fst (extractFromImage pf buffer mimetype) = [image_request pf buffer mimetype]
      \<and> (\<forall>e. generateContent pf (image_request pf buffer mimetype) = Inl e \<longrightarrow>
             snd (extractFromImage pf buffer mimetype) = no_tables)
      \<and> (\<forall>response e. generateContent pf (image_request pf buffer mimetype) = Inr response
             \<and> response_text response = Inl e \<longrightarrow>
             snd (extractFromImage pf buffer mimetype) = no_tables)
      \<and> (\<forall>response reply. generateContent pf (image_request pf buffer mimetype) = Inr response
             \<and> response_text response = Inr reply \<longrightarrow>
             snd (extractFromImage pf buffer mimetype) =
               (case brace_span reply of
                  None \<Rightarrow> no_tables
                | Some span \<Rightarrow>
                    (case JSON_parse pf span of
                       Inl e \<Rightarrow> no_tables
                     | Inr parsed \<Rightarrow>
                         (case get_tables parsed of
                            Inl e \<Rightarrow> no_tables
                          | Inr t \<Rightarrow>
                              \<lparr>tables = (if truthy_json t then FromOracle t else Tables []),
                               textContent = Some ''Extracted from image using AI''\<rparr>)))))
   \<and> map_option matched (match reply json_re) = brace_span reply
   \<and> (CHR ''{'' \<notin> set pre \<and> CHR ''}'' \<notin> set post \<longrightarrow>
        brace_span (pre @ ''{'' @ mid @ ''}'' @ post) = Some (''{'' @ mid @ ''}''))
   \<and> (brace_span reply = None) = (CHR ''}'' \<notin> set (dropWhile (\<lambda>c. c \<noteq> CHR ''{'') reply))"
proof (intro conjI impI allI)
  assume "GEMINI_API_KEY pf = None \<or> GEMINI_API_KEY pf = Some []"
  then show "extractFromImage pf buffer mimetype
        = ([], \<lparr>tables = Tables [],
                 textContent = Some ''Gemini API key not configured for image processing''\<rparr>)"
    by (auto simp: extractFromImage_def)
next
  assume k: "GEMINI_API_KEY pf = Some key \<and> key \<noteq> []"
  then have nk: "\<not> (GEMINI_API_KEY pf = None \<or> GEMINI_API_KEY pf = Some [])"
    by auto
  show "fst (extractFromImage pf buffer mimetype) = [image_request pf buffer mimetype]"
    using k by (auto simp: extractFromImage_def Let_def split: sum.splits)
  show "snd (extractFromImage pf buffer mimetype) = no_tables"
    if "generateContent pf (image_request pf buffer mimetype) = Inl e" for e
    using k that by (auto simp: extractFromImage_def Let_def)
  show "snd (extractFromImage pf buffer mimetype) = no_tables"
    if "generateContent pf (image_request pf buffer mimetype) = Inr response
          \<and> response_text response = Inl e" for response e
    using k that by (auto simp: extractFromImage_def Let_def)
  show "snd (extractFromImage pf buffer mimetype) =
               (case brace_span reply of
                  None \<Rightarrow> no_tables
                | Some span \<Rightarrow>
                    (case JSON_parse pf span of
                       Inl e \<Rightarrow> no_tables
                     | Inr parsed \<Rightarrow>
                         (case get_tables parsed of
                            Inl e \<Rightarrow> no_tables
                          | Inr t \<Rightarrow>
                              \<lparr>tables = (if truthy_json t then FromOracle t else Tables []),
                               textContent = Some ''Extracted from image using AI''\<rparr>)))"
    if r: "generateContent pf (image_request pf buffer mimetype) = Inr response
          \<and> response_text response = Inr reply" for response reply
  proof -
    have s: "snd (extractFromImage pf buffer mimetype) = parsed_result pf reply"
      using k r by (auto simp: extractFromImage_def Let_def)
    show ?thesis
    proof (cases "match reply json_re")
      case None
      then have "brace_span reply = None"
        using json_match_span [of reply] by simp
      then show ?thesis using None s by (simp add: parsed_result_def)
    next
      case (Some m)
      then have "brace_span reply = Some (matched m)"
        using json_match_span [of reply] by simp
      then show ?thesis using Some s by (simp add: parsed_result_def)
    qed
  qed
next
  show "map_option matched (match reply json_re) = brace_span reply"
    by (rule json_match_span)
next
  assume "CHR ''{'' \<notin> set pre \<and> CHR ''}'' \<notin> set post"
  then show "brace_span (pre @ ''{'' @ mid @ ''}'' @ post) = Some (''{'' @ mid @ ''}'')"
    using brace_span_prose [of pre post mid] by blast
next
  show "(brace_span reply = None) = (CHR ''}'' \<notin> set (dropWhile (\<lambda>c. c \<noteq> CHR ''{'') reply))"
  proof (cases "dropWhile (\<lambda>c. c \<noteq> CHR ''{'') reply")
    case Nil
    then show ?thesis by (simp only: brace_span_def Let_def) simp
  next
    case (Cons c cs)
    then have "c = CHR ''{''"
      using hd_dropWhile [of "\<lambda>c. c \<noteq> CHR ''{''" reply] by auto
    then show ?thesis using Cons by (simp only: brace_span_def Let_def) simp
  qed
qed

theorem image_extraction_witness:
  "GEMINI_API_KEY pf3 = Some ''secret''
   \<and> generateContent pf3 (image_request pf3 [] ''image/png'')
       = Inr \<lparr>rs_text = Some (TextValue (JStr reply1)), rs_response_text = None\<rparr>
   \<and> response_text \<lparr>rs_text = Some (TextValue (JStr reply1)), rs_response_text = None\<rparr> = Inr reply1
   \<and> brace_span reply1 = Some object0
   \<and> extractFromImage pf3 [] ''image/png''
       = ([image_request pf3 [] ''image/png''],
          \<lparr>tables = FromOracle (JArray [JObject [(''name'', JPrim (JStr ''t''))]]),
           textContent = Some ''Extracted from image using AI''\<rparr>)
   \<and> extractFromImage pf0 [] ''image/png''
       = ([], \<lparr>tables = Tables [],
                textContent = Some ''Gemini API key not configured for image processing''\<rparr>)"
proof -
  have k: "GEMINI_API_KEY pf3 = Some ''secret'' \<and> ''secret'' \<noteq> []"
    by code_simp
  have g: "generateContent pf3 (image_request pf3 [] ''image/png'')
       = Inr \<lparr>rs_text = Some (TextValue (JStr reply1)), rs_response_text = None\<rparr>
     \<and> response_text \<lparr>rs_text = Some (TextValue (JStr reply1)), rs_response_text = None\<rparr> = Inr reply1"
    by (simp add: pf3_def response_text_def member_truthy_def truthy_def String_def reply1_def)
  have n: "GEMINI_API_KEY pf0 = None \<or> GEMINI_API_KEY pf0 = Some []"
    by (simp add: pf0_def)
  have b: "brace_span reply1 = Some object0"
    by code_simp
  have p: "JSON_parse pf3 object0
      = Inr (JObject [(''tables'', JArray [JObject [(''name'', JPrim (JStr ''t''))]])])"
    by (simp add: pf3_def pf1_def parse0_def)
  note T = image_extraction [of pf3 "[]" "''image/png''" "''secret''"]
  have f: "fst (extractFromImage pf3 [] ''image/png'') = [image_request pf3 [] ''image/png'']"
    using T [THEN conjunct2, THEN conjunct1, THEN mp, OF k, THEN conjunct1] .
  have "snd (extractFromImage pf3 [] ''image/png'') =
          (case brace_span reply1 of
             None \<Rightarrow> no_tables
           | Some span \<Rightarrow>
               (case JSON_parse pf3 span of
                  Inl e \<Rightarrow> no_tables
                | Inr parsed \<Rightarrow>
                    (case get_tables parsed of
                       Inl e \<Rightarrow> no_tables
                     | Inr t \<Rightarrow>
                         \<lparr>tables = (if truthy_json t then FromOracle t else Tables []),
                          textContent = Some ''Extracted from image using AI''\<rparr>)))"
    using T [THEN conjunct2, THEN conjunct1, THEN mp, OF k, THEN conjunct2, THEN conjunct2,
        THEN conjunct2, THEN spec, THEN spec, THEN mp, OF g] .
  then have s: "snd (extractFromImage pf3 [] ''image/png'')
      = \<lparr>tables = FromOracle (JArray [JObject [(''name'', JPrim (JStr ''t''))]]),
         textContent = Some ''Extracted from image using AI''\<rparr>"
    by (simp add: b p get_tables_def truthy_json_def)
  have e: "extractFromImage pf3 [] ''image/png''
       = ([image_request pf3 [] ''image/png''],
          \<lparr>tables = FromOracle (JArray [JObject [(''name'', JPrim (JStr ''t''))]]),
           textContent = Some ''Extracted from image using AI''\<rparr>)"
    using f s by (simp add: prod_eq_iff)
  have z: "extractFromImage pf0 [] ''image/png''
       = ([], \<lparr>tables = Tables [],
                textContent = Some ''Gemini API key not configured for image processing''\<rparr>)"
    using image_extraction [of pf0 "[]" "''image/png''", THEN conjunct1, THEN mp, OF n] .
  show ?thesis
    using k g b e z by (intro conjI) simp_all
qed

section \<open>Totality\<close>

lemma action_known:
  "action (processNaturalLanguageCommand u) \<in> set [''conversation'', ''insert_row'', ''update_row'',
     ''delete_row'', ''create_database'', ''create_table'', ''delete_database'', ''show_databases'',
     ''delete_table'', ''show_table'', ''show_tables'', ''query'']"
proof (cases "greeting_rule u")
  case (Some a)
  then show ?thesis
    by (auto simp: processNaturalLanguageCommand_def greeting_rule_def act_def split: option.splits)
next
  case None
  define a where "a = first_rule keyword_rules (trim (toLowerCase u)) u"
  have pa: "processNaturalLanguageCommand u = a"
    by (simp add: processNaturalLanguageCommand_def None a_def)
  from first_rule_cases [OF a_def [symmetric]]
  show ?thesis
  proof
    assume "\<exists>r\<in>set keyword_rules. r (trim (toLowerCase u)) u = Some a"
    then obtain r where "r \<in> set keyword_rules" "r (trim (toLowerCase u)) u = Some a" by blast
    from keyword_rule_action [OF this] show ?thesis unfolding pa by auto
  next
    assume "(\<forall>r\<in>set keyword_rules. r (trim (toLowerCase u)) u = None) \<and> a = default_action u"
    then show ?thesis unfolding pa by (simp add: default_action_def act_def)
  qed
qed

text \<open>
  C1: \<open>extract\<close> (\<open>extractDataFromFile\<close>) and \<open>interpret\<close>
  (\<open>processNaturalLanguageCommand\<close>) are functions of their arguments and of the results of
  the libraries, exceptions included, and return a value for each of them. Whatever is
  raised inside \<open>extract\<close> gives \<open>{tables: []}\<close>: a spreadsheet or a PDF file that its
  reader rejects, a failed request to the model for an image. So do a text of fewer than
  two non-blank lines as comma-separated text and every file extension that is not one of
  the seven that the dispatch knows. \<open>interpret\<close> always returns one of twelve actions,
  and when no greeting and no rule applies it returns \<open>query\<close> with the message.
\<close>

theorem core_is_total:
  "(extract_try pf buffer ext mimetype = Inl e \<longrightarrow>
      extractDataFromFile pf buffer ext mimetype = no_tables)
   \<and> ((ext = ''.xlsx'' \<or> ext = ''.xls'') \<and> xlsx_sheets pf buffer = Inl e \<longrightarrow>
        extractDataFromFile pf buffer ext mimetype = no_tables)
   \<and> (ext = ''.pdf'' \<and> pdfParse pf buffer = Inl e \<longrightarrow>
        extractDataFromFile pf buffer ext mimetype = no_tables)
   \<and> (ext \<in> set [''.png'', ''.jpg'', ''.jpeg''] \<and> GEMINI_API_KEY pf = Some key \<and> key \<noteq> []
        \<and> generateContent pf (image_request pf buffer mimetype) = Inl e \<longrightarrow>
        extractDataFromFile pf buffer ext mimetype = no_tables)
   \<and> (ext = ''.csv'' \<and> length (filter (\<lambda>line. trim line \<noteq> []) (split_lines buffer)) < 2 \<longrightarrow>
        extractDataFromFile pf buffer ext mimetype = no_tables)
   \<and> (ext \<notin> set [''.xlsx'', ''.xls'', ''.csv'', ''.pdf'', ''.png'', ''.jpg'', ''.jpeg''] \<longrightarrow>
        extractDataFromFile pf buffer ext mimetype = no_tables)
   \<and> (greeting_rule u = None \<and> (\<forall>r\<in>set keyword_rules. r (trim (toLowerCase u)) u = None) \<longrightarrow>
        processNaturalLanguageCommand u
          = \<lparr>action = ''query'', details = no_details\<lparr>d_message := Some u\<rparr>\<rparr>)
   \<and> action (processNaturalLanguageCommand u) \<in> set [''conversation'', ''insert_row'',
        ''update_row'', ''delete_row'', ''create_database'', ''create_table'', ''delete_database'',
        ''show_databases'', ''delete_table'', ''show_table'', ''show_tables'', ''query'']"
proof (intro conjI impI)
  assume "extract_try pf buffer ext mimetype = Inl e"
  then show "extractDataFromFile pf buffer ext mimetype = no_tables"
    by (simp add: extractDataFromFile_def)
next
  assume "(ext = ''.xlsx'' \<or> ext = ''.xls'') \<and> xlsx_sheets pf buffer = Inl e"
  then show "extractDataFromFile pf buffer ext mimetype = no_tables"
    by (auto simp: extractDataFromFile_def extract_try_def extractFromExcel_def)
next
  assume "ext = ''.pdf'' \<and> pdfParse pf buffer = Inl e"
  then show "extractDataFromFile pf buffer ext mimetype = no_tables"
    by (simp add: extractDataFromFile_def extract_try_def extractFromPDF_def)
next
  assume a: "ext \<in> set [''.png'', ''.jpg'', ''.jpeg''] \<and> GEMINI_API_KEY pf = Some key \<and> key \<noteq> []
        \<and> generateContent pf (image_request pf buffer mimetype) = Inl e"
  then have "snd (extractFromImage pf buffer mimetype) = no_tables"
    by (auto simp: extractFromImage_def Let_def)
  then show "extractDataFromFile pf buffer ext mimetype = no_tables"
    using a by (auto simp: extractDataFromFile_def extract_try_def)
next
  assume "ext = ''.csv'' \<and> length (filter (\<lambda>line. trim line \<noteq> []) (split_lines buffer)) < 2"
  then show "extractDataFromFile pf buffer ext mimetype = no_tables"
    by (simp add: extractDataFromFile_def extract_try_def extractFromCSV_def Let_def)
next
  assume "ext \<notin> set [''.xlsx'', ''.xls'', ''.csv'', ''.pdf'', ''.png'', ''.jpg'', ''.jpeg'']"
  then show "extractDataFromFile pf buffer ext mimetype = no_tables"
    by (simp add: extractDataFromFile_def extract_try_def)
next
  assume "greeting_rule u = None \<and> (\<forall>r\<in>set keyword_rules. r (trim (toLowerCase u)) u = None)"
  then show "processNaturalLanguageCommand u
          = \<lparr>action = ''query'', details = no_details\<lparr>d_message := Some u\<rparr>\<rparr>"
    using first_rule_default [of keyword_rules "trim (toLowerCase u)" u]
    by (simp add: processNaturalLanguageCommand_def default_action_def act_def)
next
  show "action (processNaturalLanguageCommand u) \<in> set [''conversation'', ''insert_row'',
        ''update_row'', ''delete_row'', ''create_database'', ''create_table'', ''delete_database'',
        ''show_databases'', ''delete_table'', ''show_table'', ''show_tables'', ''query'']"
    by (rule action_known)
qed

theorem core_is_total_witness:
  "xlsx_sheets pf0 ''not a workbook'' = Inl (Error ''unreadable'')
   \<and> extractDataFromFile pf0 ''not a workbook'' ''.xlsx'' ''application/octet-stream'' = no_tables
   \<and> ''.txt'' \<notin> set [''.xlsx'', ''.xls'', ''.csv'', ''.pdf'', ''.png'', ''.jpg'', ''.jpeg'']
   \<and> extractDataFromFile pf0 ''some text'' ''.txt'' ''text/plain'' = no_tables
   \<and> greeting_rule ''please insert'' = None
   \<and> list_all (\<lambda>r. r (trim (toLowerCase ''please insert'')) ''please insert'' = None) keyword_rules
   \<and> processNaturalLanguageCommand ''please insert''
       = \<lparr>action = ''query'', details = no_details\<lparr>d_message := Some ''please insert''\<rparr>\<rparr>"
proof -
  have x: "(''.xlsx'' = ''.xlsx'' \<or> ''.xlsx'' = ''.xls'')
      \<and> xlsx_sheets pf0 ''not a workbook'' = Inl (Error ''unreadable'')"
    by (simp add: pf0_def)
  have t: "''.txt'' \<notin> set [''.xlsx'', ''.xls'', ''.csv'', ''.pdf'', ''.png'', ''.jpg'', ''.jpeg'']"
    by simp
  have g: "greeting_rule ''please insert'' = None"
    by code_simp
  have r: "list_all (\<lambda>r. r (trim (toLowerCase ''please insert'')) ''please insert'' = None) keyword_rules"
    by code_simp
  then have q: "greeting_rule ''please insert'' = None
      \<and> (\<forall>r\<in>set keyword_rules. r (trim (toLowerCase ''please insert'')) ''please insert'' = None)"
    using g by (simp add: list_all_iff)
  note T = core_is_total [of pf0 "''not a workbook''" "''.xlsx''" "''application/octet-stream''"
      "Error ''unreadable''" "''secret''" "''please insert''"]
  have a: "extractDataFromFile pf0 ''not a workbook'' ''.xlsx'' ''application/octet-stream'' = no_tables"
    using T [THEN conjunct2, THEN conjunct1, THEN mp, OF x] .
  note U = core_is_total [of pf0 "''some text''" "''.txt''" "''text/plain''"
      "Error ''unreadable''" "''secret''" "''please insert''"]
  have b: "extractDataFromFile pf0 ''some text'' ''.txt'' ''text/plain'' = no_tables"
    using U [THEN conjunct2, THEN conjunct2, THEN conjunct2, THEN conjunct2, THEN conjunct2,
        THEN conjunct1, THEN mp, OF t] .
  have c: "processNaturalLanguageCommand ''please insert''
       = \<lparr>action = ''query'', details = no_details\<lparr>d_message := Some ''please insert''\<rparr>\<rparr>"
    using T [THEN conjunct2, THEN conjunct2, THEN conjunct2, THEN conjunct2, THEN conjunct2,
        THEN conjunct2, THEN conjunct1, THEN mp, OF q] .
  show ?thesis
    using x t g r a b c by (intro conjI) simp_all
qed


end
